theory Spec2Isabelle
  imports Complex_Main
begin

section \<open>JavaScript numbers\<close>

text \<open>
  Every numeric field of the motion engine is a TypeScript \<open>number\<close>. The model keeps the
  three special values of that type apart from the finite ones, because the code depends on
  them: \<open>valleyMagnitude\<close> starts at \<open>Infinity\<close>, \<open>filterByDistance\<close> starts at
  \<open>-Infinity\<close>, the scoring engine tests \<open>isNaN\<close> and \<open>isFinite\<close>, and every comparison
  with \<open>NaN\<close> is false. Finite values are real numbers: rounding error, overflow to
  infinity and the sign of zero are not modelled.
\<close>

datatype jsnum = Fin real | PInf | NInf | NaN

fun jneg :: "jsnum \<Rightarrow> jsnum" where
  "jneg (Fin a) = Fin (- a)"
| "jneg PInf = NInf"
| "jneg NInf = PInf"
| "jneg NaN = NaN"

fun jadd :: "jsnum \<Rightarrow> jsnum \<Rightarrow> jsnum" where
  "jadd NaN _ = NaN"
| "jadd _ NaN = NaN"
| "jadd (Fin a) (Fin b) = Fin (a + b)"
| "jadd PInf NInf = NaN"
| "jadd NInf PInf = NaN"
| "jadd PInf _ = PInf"
| "jadd _ PInf = PInf"
| "jadd NInf _ = NInf"
| "jadd _ NInf = NInf"

definition jsub :: "jsnum \<Rightarrow> jsnum \<Rightarrow> jsnum" where
  "jsub a b = jadd a (jneg b)"

text \<open>The sign of a number as an infinity, for products and quotients; zero has none.\<close>

fun jsigned_inf :: "real \<Rightarrow> jsnum" where
  "jsigned_inf s = (if s > 0 then PInf else if s < 0 then NInf else NaN)"

fun jsign :: "jsnum \<Rightarrow> real" where
  "jsign (Fin a) = sgn a"
| "jsign PInf = 1"
| "jsign NInf = - 1"
| "jsign NaN = 0"

fun jmul :: "jsnum \<Rightarrow> jsnum \<Rightarrow> jsnum" where
  "jmul NaN _ = NaN"
| "jmul _ NaN = NaN"
| "jmul (Fin a) (Fin b) = Fin (a * b)"
| "jmul a b = jsigned_inf (jsign a * jsign b)"

fun jdiv :: "jsnum \<Rightarrow> jsnum \<Rightarrow> jsnum" where
  "jdiv NaN _ = NaN"
| "jdiv _ NaN = NaN"
| "jdiv (Fin a) (Fin b) = (if b = 0 then jsigned_inf a else Fin (a / b))"
| "jdiv (Fin a) _ = Fin 0"
| "jdiv a (Fin b) = jsigned_inf (jsign a * (if b < 0 then - 1 else 1))"
| "jdiv _ _ = NaN"

fun jlt :: "jsnum \<Rightarrow> jsnum \<Rightarrow> bool" where
  "jlt NaN _ = False"
| "jlt _ NaN = False"
| "jlt (Fin a) (Fin b) = (a < b)"
| "jlt _ NInf = False"
| "jlt NInf _ = True"
| "jlt PInf _ = False"
| "jlt _ PInf = True"

definition jgt :: "jsnum \<Rightarrow> jsnum \<Rightarrow> bool" where
  "jgt a b = jlt b a"

fun jle :: "jsnum \<Rightarrow> jsnum \<Rightarrow> bool" where
  "jle NaN _ = False"
| "jle _ NaN = False"
| "jle a b = (\<not> jlt b a)"

definition jge :: "jsnum \<Rightarrow> jsnum \<Rightarrow> bool" where
  "jge a b = jle b a"

text \<open>Strict equality \<open>===\<close> on numbers: \<open>NaN\<close> equals nothing.\<close>

definition jeq :: "jsnum \<Rightarrow> jsnum \<Rightarrow> bool" where
  "jeq a b = (a \<noteq> NaN \<and> a = b)"

fun isNaN :: "jsnum \<Rightarrow> bool" where
  "isNaN NaN = True"
| "isNaN _ = False"

fun isFinite :: "jsnum \<Rightarrow> bool" where
  "isFinite (Fin _) = True"
| "isFinite _ = False"

fun Math_abs :: "jsnum \<Rightarrow> jsnum" where
  "Math_abs (Fin a) = Fin \<bar>a\<bar>"
| "Math_abs PInf = PInf"
| "Math_abs NInf = PInf"
| "Math_abs NaN = NaN"

text \<open>\<open>Math.max\<close> and \<open>Math.min\<close> of two arguments: \<open>NaN\<close> if either is.\<close>

definition Math_max :: "jsnum \<Rightarrow> jsnum \<Rightarrow> jsnum" where
  "Math_max a b = (if isNaN a \<or> isNaN b then NaN else if jlt a b then b else a)"

definition Math_min :: "jsnum \<Rightarrow> jsnum \<Rightarrow> jsnum" where
  "Math_min a b = (if isNaN a \<or> isNaN b then NaN else if jlt b a then b else a)"

text \<open>\<open>Math.round\<close> rounds to the nearest integer, a tie going up.\<close>

fun Math_round :: "jsnum \<Rightarrow> jsnum" where
  "Math_round (Fin a) = Fin (of_int \<lfloor>a + 1 / 2\<rfloor>)"
| "Math_round a = a"

fun Math_sqrt :: "jsnum \<Rightarrow> jsnum" where
  "Math_sqrt (Fin a) = (if a < 0 then NaN else Fin (sqrt a))"
| "Math_sqrt PInf = PInf"
| "Math_sqrt _ = NaN"

section \<open>Errors\<close>

text \<open>The exceptions the motion engine's components can raise.\<close>

datatype error =
    AlphaOutOfRange        \<comment> \<open>\<open>LowPassFilter: alpha must be between 0 and 1\<close>\<close>
  | WeightsMustSumToOne    \<comment> \<open>\<open>ScoringEngine: Weights must sum to 1.0\<close>\<close>
  | TypeError              \<comment> \<open>a property read on \<open>undefined\<close>\<close>
  | ExcessiveErrors        \<comment> \<open>\<open>Motion engine stopped due to excessive errors\<close>\<close>
  | NotRunning             \<comment> \<open>\<open>MotionEngine: Not running\<close>\<close>
  | NotPaused              \<comment> \<open>\<open>MotionEngine: Not paused\<close>\<close>
  | StageFailure           \<comment> \<open>anything a pipeline stage throws\<close>
  | CallbackFailure        \<comment> \<open>anything a callback of the caller throws\<close>

section \<open>Low-pass filter\<close>

record LowPassFilter =
  alpha :: jsnum
  previousX :: jsnum
  previousY :: jsnum
  previousZ :: jsnum
  isInitialized :: bool

definition LowPassFilter_new :: "jsnum \<Rightarrow> error + LowPassFilter" where
  "LowPassFilter_new a =
     (if jlt a (Fin 0) \<or> jgt a (Fin 1) then Inl AlphaOutOfRange
      else Inr \<lparr>alpha = a, previousX = Fin 0, previousY = Fin 0, previousZ = Fin 0,
                isInitialized = False\<rparr>)"

definition LowPassFilter_filter ::
  "LowPassFilter \<Rightarrow> jsnum \<Rightarrow> jsnum \<Rightarrow> jsnum \<Rightarrow> LowPassFilter \<times> (jsnum \<times> jsnum \<times> jsnum)" where
  "LowPassFilter_filter f rawX rawY rawZ =
     (if \<not> isInitialized f then
        (f\<lparr>previousX := rawX, previousY := rawY, previousZ := rawZ, isInitialized := True\<rparr>,
         (rawX, rawY, rawZ))
      else
        let filteredX = jadd (jmul (alpha f) rawX) (jmul (jsub (Fin 1) (alpha f)) (previousX f));
            filteredY = jadd (jmul (alpha f) rawY) (jmul (jsub (Fin 1) (alpha f)) (previousY f));
            filteredZ = jadd (jmul (alpha f) rawZ) (jmul (jsub (Fin 1) (alpha f)) (previousZ f))
        in (f\<lparr>previousX := filteredX, previousY := filteredY, previousZ := filteredZ\<rparr>,
            (filteredX, filteredY, filteredZ)))"

definition LowPassFilter_reset :: "LowPassFilter \<Rightarrow> LowPassFilter" where
  "LowPassFilter_reset f =
     f\<lparr>previousX := Fin 0, previousY := Fin 0, previousZ := Fin 0, isInitialized := False\<rparr>"

definition LowPassFilter_setAlpha :: "LowPassFilter \<Rightarrow> jsnum \<Rightarrow> error + LowPassFilter" where
  "LowPassFilter_setAlpha f a =
     (if jlt a (Fin 0) \<or> jgt a (Fin 1) then Inl AlphaOutOfRange else Inr (f\<lparr>alpha := a\<rparr>))"

section \<open>Sensor data\<close>

text \<open>
  \<open>AccelerometerData\<close> is one raw reading and \<open>ProcessedSensorData\<close> extends it, as in
  the source. The axes are called \<open>accX\<close>, \<open>accY\<close>, \<open>accZ\<close> here (\<open>x\<close>, \<open>y\<close>, \<open>z\<close> in
  the source).
\<close>

record AccelerometerData =
  accX :: jsnum
  accY :: jsnum
  accZ :: jsnum
  timestamp :: jsnum

record ProcessedSensorData = AccelerometerData +
  magnitude :: jsnum
  filteredX :: jsnum
  filteredY :: jsnum
  filteredZ :: jsnum
  filteredMagnitude :: jsnum

section \<open>Signal processor\<close>

record SignalProcessor =
  lowPassFilter :: LowPassFilter

definition SignalProcessor_new :: "jsnum \<Rightarrow> error + SignalProcessor" where
  "SignalProcessor_new lowPassAlpha =
     (case LowPassFilter_new lowPassAlpha of
        Inl e \<Rightarrow> Inl e
      | Inr f \<Rightarrow> Inr \<lparr>lowPassFilter = f\<rparr>)"

definition calculateMagnitude :: "jsnum \<Rightarrow> jsnum \<Rightarrow> jsnum \<Rightarrow> jsnum" where
  "calculateMagnitude u v w = Math_sqrt (jadd (jadd (jmul u u) (jmul v v)) (jmul w w))"

definition SignalProcessor_process ::
  "SignalProcessor \<Rightarrow> AccelerometerData \<Rightarrow> SignalProcessor \<times> ProcessedSensorData" where
  "SignalProcessor_process p raw =
     (case LowPassFilter_filter (lowPassFilter p) (accX raw) (accY raw) (accZ raw) of
        (f, (fx, fy, fz)) \<Rightarrow>
          (p\<lparr>lowPassFilter := f\<rparr>,
           \<lparr>accX = accX raw, accY = accY raw, accZ = accZ raw, timestamp = timestamp raw,
             magnitude = calculateMagnitude (accX raw) (accY raw) (accZ raw),
             filteredX = fx, filteredY = fy, filteredZ = fz,
             filteredMagnitude = calculateMagnitude fx fy fz\<rparr>))"

definition SignalProcessor_reset :: "SignalProcessor \<Rightarrow> SignalProcessor" where
  "SignalProcessor_reset p = p\<lparr>lowPassFilter := LowPassFilter_reset (lowPassFilter p)\<rparr>"

section \<open>Rep features and the feature extractor\<close>

record RepFeatures =
  descendDuration :: jsnum
  ascendDuration :: jsnum
  totalDuration :: jsnum
  depthScore :: jsnum
  stabilityScore :: jsnum
  rangeScore :: jsnum
  featPeakMagnitude :: jsnum
  featValleyMagnitude :: jsnum
  magnitudeChange :: jsnum
  zAxisChange :: jsnum

text \<open>The argument object of \<open>extract\<close> (\<open>RepDataForExtraction\<close> in the source).\<close>

record RepDataForExtraction =
  exDescendStartTime :: jsnum
  exBottomTime :: jsnum
  exAscendStartTime :: jsnum
  exCompletionTime :: jsnum
  exPeakMagnitude :: jsnum
  exValleyMagnitude :: jsnum
  exPeakZValue :: jsnum
  exValleyZValue :: jsnum

definition calculateDepthScore :: "jsnum \<Rightarrow> jsnum" where
  "calculateDepthScore mc =
     (if jge mc (Fin (12 / 10)) then Fin 100
      else if jge mc (Fin 1) then Fin 90
      else if jge mc (Fin (8 / 10)) then Fin 70
      else if jge mc (Fin (6 / 10)) then Fin 50
      else Math_max (Fin 0) (jmul (jdiv mc (Fin (6 / 10))) (Fin 50)))"

definition calculateStabilityScore :: "jsnum \<Rightarrow> jsnum \<Rightarrow> jsnum" where
  "calculateStabilityScore dd ad =
     (if jeq ad (Fin 0) \<or> jeq dd (Fin 0) then Fin 0
      else
        let ratio = jdiv (Math_min dd ad) (Math_max dd ad)
        in if jge ratio (Fin (9 / 10)) then Fin 100
           else if jge ratio (Fin (7 / 10)) then Fin 85
           else if jge ratio (Fin (5 / 10)) then Fin 65
           else if jge ratio (Fin (3 / 10)) then Fin 40
           else Math_max (Fin 0) (jmul ratio (Fin 100)))"

definition calculateRangeScore :: "jsnum \<Rightarrow> jsnum" where
  "calculateRangeScore mc =
     (if jge mc (Fin (12 / 10)) then Fin 100
      else if jge mc (Fin 1) then Fin 90
      else if jge mc (Fin (8 / 10)) then Fin 70
      else if jge mc (Fin (6 / 10)) then Fin 50
      else Math_max (Fin 0) (jmul (jdiv mc (Fin (6 / 10))) (Fin 50)))"

definition RepFeatureExtractor_extract :: "RepDataForExtraction \<Rightarrow> RepFeatures" where
  "RepFeatureExtractor_extract dat =
     (let dd = jsub (exBottomTime dat) (exDescendStartTime dat);
          ad = jsub (exCompletionTime dat) (exAscendStartTime dat);
          td = jsub (exCompletionTime dat) (exDescendStartTime dat);
          mc = jsub (exPeakMagnitude dat) (exValleyMagnitude dat);
          zc = jsub (exValleyZValue dat) (exPeakZValue dat)
      in \<lparr>descendDuration = dd, ascendDuration = ad, totalDuration = td,
           depthScore = calculateDepthScore mc,
           stabilityScore = calculateStabilityScore dd ad,
           rangeScore = calculateRangeScore mc,
           featPeakMagnitude = exPeakMagnitude dat,
           featValleyMagnitude = exValleyMagnitude dat,
           magnitudeChange = mc, zAxisChange = zc\<rparr>)"

section \<open>Scoring engine\<close>

datatype technique = excellent | optimal | good | acceptable | poor

record RepScore =
  overall :: jsnum
  scoreDepth :: jsnum
  scoreStability :: jsnum
  scoreConsistency :: jsnum
  scoreTechnique :: technique

record ScoringWeights =
  weightDepth :: jsnum
  weightStability :: jsnum
  weightConsistency :: jsnum

definition DEFAULT_WEIGHTS :: ScoringWeights where
  "DEFAULT_WEIGHTS =
     \<lparr>weightDepth = Fin (5 / 10), weightStability = Fin (3 / 10), weightConsistency = Fin (2 / 10)\<rparr>"

record ScoringEngine =
  weights :: ScoringWeights

definition getScoreTechnique :: "jsnum \<Rightarrow> technique" where
  "getScoreTechnique sc =
     (if jge sc (Fin 85) then excellent
      else if jge sc (Fin 70) then optimal
      else if jge sc (Fin 50) then good
      else if jge sc (Fin 0) then acceptable
      else poor)"

definition validateWeights :: "ScoringWeights \<Rightarrow> error + unit" where
  "validateWeights w =
     (let total = jadd (jadd (weightDepth w) (weightStability w)) (weightConsistency w);
          tolerance = Fin (1 / 1000)
      in if jgt (Math_abs (jsub total (Fin 1))) tolerance then Inl WeightsMustSumToOne
         else Inr ())"

definition ScoringEngine_new :: "ScoringWeights \<Rightarrow> error + ScoringEngine" where
  "ScoringEngine_new w =
     (case validateWeights w of Inl e \<Rightarrow> Inl e | Inr _ \<Rightarrow> Inr \<lparr>weights = w\<rparr>)"

text \<open>
  \<open>sanitizeScore\<close>. Its argument is typed \<open>number\<close>, so the \<open>typeof\<close> test of the source is
  always passed and has no branch here.
\<close>

definition sanitizeScore :: "jsnum \<Rightarrow> jsnum" where
  "sanitizeScore sc =
     (if isNaN sc \<or> \<not> isFinite sc then Fin 0
      else Math_max (Fin 0) (Math_min (Fin 100) sc))"

definition calculateWeightedScore :: "ScoringEngine \<Rightarrow> jsnum \<Rightarrow> jsnum \<Rightarrow> jsnum \<Rightarrow> jsnum" where
  "calculateWeightedScore eng d st c =
     jadd (jadd (jmul d (weightDepth (weights eng))) (jmul st (weightStability (weights eng))))
          (jmul c (weightConsistency (weights eng)))"

definition score :: "ScoringEngine \<Rightarrow> RepFeatures \<Rightarrow> RepScore" where
  "score eng feats =
     (let d = sanitizeScore (depthScore feats);
          st = sanitizeScore (stabilityScore feats);
          c = sanitizeScore (rangeScore feats);
          ov = calculateWeightedScore eng d st c
      in \<lparr>overall = Math_round ov, scoreDepth = Math_round d, scoreStability = Math_round st,
           scoreConsistency = Math_round c, scoreTechnique = getScoreTechnique ov\<rparr>)"

section \<open>Rep detector\<close>

datatype RepPhase = idle | descending | bottom | ascending | completed

record DetectedRep =
  repNumber :: nat
  repTimestamp :: jsnum
  duration :: jsnum
  depth :: jsnum
  isValid :: bool
  features :: RepFeatures
  repScore :: "RepScore option"

record SquatDetectionConfig =
  minDepthThreshold :: jsnum
  minZAxisChange :: jsnum
  minRepDuration :: jsnum
  maxRepDuration :: jsnum
  peakProminence :: jsnum
  minPeakDistance :: jsnum
  minStabilityScore :: jsnum
  minDepthScore :: jsnum
  lowPassAlpha :: jsnum
  samplingRate :: jsnum
  bufferSize :: jsnum

definition DEFAULT_SQUAT_CONFIG :: SquatDetectionConfig where
  "DEFAULT_SQUAT_CONFIG =
     \<lparr>minDepthThreshold = Fin (8 / 100), minZAxisChange = Fin (- (1 / 10)),
       minRepDuration = Fin 100, maxRepDuration = Fin 60000,
       peakProminence = Fin (5 / 100), minPeakDistance = Fin 15,
       minStabilityScore = Fin 0, minDepthScore = Fin 0,
       lowPassAlpha = Fin (22 / 100), samplingRate = Fin 60, bufferSize = Fin 240\<rparr>"

text \<open>
  The fields of the abstract \<open>RepDetector\<close> and of its one subclass \<open>SquatDetector\<close> in one
  record. The rep counter only ever holds 0, 1, 2, ... and is a natural number here; a
  \<open>number\<close> counts exactly up to \<open>2^53\<close>.
\<close>

record SquatDetector =
  config :: SquatDetectionConfig
  currentPhase :: RepPhase
  repCount :: nat
  repStartTime :: jsnum
  descendStartTime :: jsnum
  bottomTime :: jsnum
  ascendStartTime :: jsnum
  peakMagnitude :: jsnum
  valleyMagnitude :: jsnum
  peakZValue :: jsnum
  valleyZValue :: jsnum

definition SquatDetector_new :: "SquatDetectionConfig \<Rightarrow> SquatDetector" where
  "SquatDetector_new cfg =
     \<lparr>config = cfg, currentPhase = idle, repCount = 0,
       repStartTime = Fin 0, descendStartTime = Fin 0, bottomTime = Fin 0,
       ascendStartTime = Fin 0, peakMagnitude = Fin 0, valleyMagnitude = PInf,
       peakZValue = Fin 0, valleyZValue = Fin 0\<rparr>"

definition MAGNITUDE_DROP_THRESHOLD :: jsnum where
  "MAGNITUDE_DROP_THRESHOLD = Fin (30 / 100)"

definition MAGNITUDE_RISE_THRESHOLD :: jsnum where
  "MAGNITUDE_RISE_THRESHOLD = Fin (15 / 100)"

definition resetRepState :: "SquatDetector \<Rightarrow> SquatDetector" where
  "resetRepState s =
     s\<lparr>repStartTime := Fin 0, descendStartTime := Fin 0, bottomTime := Fin 0,
       ascendStartTime := Fin 0, peakMagnitude := Fin 0, valleyMagnitude := PInf,
       peakZValue := Fin 0, valleyZValue := Fin 0\<rparr>"

definition transitionToPhase :: "RepPhase \<Rightarrow> SquatDetector \<Rightarrow> SquatDetector" where
  "transitionToPhase newPhase s = s\<lparr>currentPhase := newPhase\<rparr>"

definition reset :: "SquatDetector \<Rightarrow> SquatDetector" where
  "reset s = resetRepState (s\<lparr>currentPhase := idle, repCount := 0\<rparr>)"

definition isValidDuration :: "jsnum \<Rightarrow> jsnum \<Rightarrow> jsnum \<Rightarrow> jsnum \<Rightarrow> bool" where
  "isValidDuration startTime endTime minDuration maxDuration =
     (let dur = jsub endTime startTime in jge dur minDuration \<and> jle dur maxDuration)"

definition calculateDuration :: "jsnum \<Rightarrow> jsnum \<Rightarrow> jsnum" where
  "calculateDuration startTime endTime = jsub endTime startTime"

definition updatePeakMagnitude :: "jsnum \<Rightarrow> SquatDetector \<Rightarrow> SquatDetector" where
  "updatePeakMagnitude m s = (if jgt m (peakMagnitude s) then s\<lparr>peakMagnitude := m\<rparr> else s)"

definition updateValleyMagnitude :: "jsnum \<Rightarrow> SquatDetector \<Rightarrow> SquatDetector" where
  "updateValleyMagnitude m s =
     (if jlt m (valleyMagnitude s) then s\<lparr>valleyMagnitude := m\<rparr> else s)"

definition updateZAxisTracking :: "jsnum \<Rightarrow> SquatDetector \<Rightarrow> SquatDetector" where
  "updateZAxisTracking zv s =
     (let s1 = (if jgt zv (peakZValue s) then s\<lparr>peakZValue := zv\<rparr> else s)
      in if jlt zv (valleyZValue s1) then s1\<lparr>valleyZValue := zv\<rparr> else s1)"

definition calculateMagnitudeChange :: "SquatDetector \<Rightarrow> jsnum" where
  "calculateMagnitudeChange s =
     (if \<not> isFinite (valleyMagnitude s) then Fin 0
      else jsub (peakMagnitude s) (valleyMagnitude s))"

definition calculateZAxisChange :: "SquatDetector \<Rightarrow> jsnum" where
  "calculateZAxisChange s = jsub (valleyZValue s) (peakZValue s)"

definition createDetectedRep :: "SquatDetector \<Rightarrow> jsnum \<Rightarrow> DetectedRep" where
  "createDetectedRep s ts =
     \<lparr>repNumber = repCount s + 1,
       repTimestamp = ts,
       duration = calculateDuration (repStartTime s) ts,
       depth = calculateMagnitudeChange s,
       isValid = False,
       features = RepFeatureExtractor_extract
         \<lparr>exDescendStartTime = descendStartTime s, exBottomTime = bottomTime s,
           exAscendStartTime = ascendStartTime s, exCompletionTime = ts,
           exPeakMagnitude = peakMagnitude s, exValleyMagnitude = valleyMagnitude s,
           exPeakZValue = peakZValue s, exValleyZValue = valleyZValue s\<rparr>,
       repScore = None\<rparr>"

text \<open>
  \<open>validateRep\<close> answers whether the five checks pass, in the source's order. On success the
  source also sets \<open>rep.isValid\<close>; \<open>handleAscendingPhase\<close> below returns the rep so marked.
\<close>

definition validateRep :: "SquatDetector \<Rightarrow> DetectedRep \<Rightarrow> bool" where
  "validateRep s rep =
     (if jlt (depth rep) (minDepthThreshold (config s)) then False
      else if jlt (Math_abs (zAxisChange (features rep))) (Math_abs (minZAxisChange (config s)))
        then False
      else if \<not> isValidDuration (repStartTime s) (repTimestamp rep)
                  (minRepDuration (config s)) (maxRepDuration (config s)) then False
      else if jlt (stabilityScore (features rep)) (minStabilityScore (config s)) then False
      else if jlt (depthScore (features rep)) (minDepthScore (config s)) then False
      else True)"

definition handleIdlePhase ::
  "SquatDetector \<Rightarrow> ProcessedSensorData \<Rightarrow> SquatDetector \<times> DetectedRep option" where
  "handleIdlePhase s dat =
     (let change = jsub (peakMagnitude s) (filteredMagnitude dat)
      in if jgt change MAGNITUDE_DROP_THRESHOLD then
           (transitionToPhase descending
              (updatePeakMagnitude (filteredMagnitude dat)
                 ((resetRepState s)\<lparr>repStartTime := timestamp dat,
                                     descendStartTime := timestamp dat\<rparr>)),
            None)
         else (s, None))"

definition handleDescendingPhase ::
  "SquatDetector \<Rightarrow> ProcessedSensorData \<Rightarrow> SquatDetector \<times> DetectedRep option" where
  "handleDescendingPhase s dat =
     (let timeInDescending = jsub (timestamp dat) (descendStartTime s)
      in if jgt timeInDescending (Fin 5000) then
           (resetRepState (transitionToPhase idle s), None)
         else
           let rise = jsub (filteredMagnitude dat) (valleyMagnitude s)
           in if jgt rise MAGNITUDE_RISE_THRESHOLD then
                (transitionToPhase bottom (s\<lparr>bottomTime := timestamp dat\<rparr>), None)
              else (s, None))"

definition handleBottomPhase ::
  "SquatDetector \<Rightarrow> ProcessedSensorData \<Rightarrow> SquatDetector \<times> DetectedRep option" where
  "handleBottomPhase s dat =
     (transitionToPhase ascending (s\<lparr>ascendStartTime := timestamp dat\<rparr>), None)"

definition handleAscendingPhase ::
  "SquatDetector \<Rightarrow> ProcessedSensorData \<Rightarrow> SquatDetector \<times> DetectedRep option" where
  "handleAscendingPhase s dat =
     (let timeInAscending = jsub (timestamp dat) (ascendStartTime s)
      in if jgt timeInAscending (Fin 5000) then
           (resetRepState (transitionToPhase idle s), None)
         else
           let recovery = jsub (filteredMagnitude dat) (valleyMagnitude s)
           in if jge recovery (minDepthThreshold (config s)) then
                let rep = createDetectedRep s (timestamp dat)
                in if validateRep s rep then
                     (resetRepState (transitionToPhase idle (s\<lparr>repCount := repCount s + 1\<rparr>)),
                      Some (rep\<lparr>isValid := True\<rparr>))
                   else (resetRepState (transitionToPhase idle s), None)
              else (s, None))"

text \<open>
  \<open>detect\<close>. The debug line guarded by \<open>Math.random\<close> only prints and is left out.
\<close>

definition detect ::
  "SquatDetector \<Rightarrow> ProcessedSensorData \<Rightarrow> SquatDetector \<times> DetectedRep option" where
  "detect s dat =
     (let s1 = updatePeakMagnitude (filteredMagnitude dat) s;
          s2 = (if currentPhase s1 = descending \<or> currentPhase s1 = bottom
                then updateZAxisTracking (filteredZ dat)
                       (updateValleyMagnitude (filteredMagnitude dat) s1)
                else s1);
          s3 = (if currentPhase s2 = idle then updateZAxisTracking (filteredZ dat) s2 else s2)
      in case currentPhase s3 of
           idle \<Rightarrow> handleIdlePhase s3 dat
         | descending \<Rightarrow> handleDescendingPhase s3 dat
         | bottom \<Rightarrow> handleBottomPhase s3 dat
         | ascending \<Rightarrow> handleAscendingPhase s3 dat
         | completed \<Rightarrow> (transitionToPhase idle s3, None))"

text \<open>
  A stream of samples fed to the detector one by one, as the sensor callback does; the reps
  it returns are collected in the order of emission.
\<close>

fun detectAll ::
  "SquatDetector \<Rightarrow> ProcessedSensorData list \<Rightarrow> SquatDetector \<times> DetectedRep list" where
  "detectAll s [] = (s, [])"
| "detectAll s (dat # rest) =
     (case detect s dat of
        (s', None) \<Rightarrow> detectAll s' rest
      | (s', Some rep) \<Rightarrow> (case detectAll s' rest of (s'', reps) \<Rightarrow> (s'', rep # reps)))"

text \<open>
  \<open>setConfig\<close> takes a \<open>Partial<SquatDetectionConfig>\<close> and spreads it over the current
  configuration: a field that is present replaces the old value.
\<close>

record SquatDetectionConfigPatch =
  patchMinDepthThreshold :: "jsnum option"
  patchMinZAxisChange :: "jsnum option"
  patchMinRepDuration :: "jsnum option"
  patchMaxRepDuration :: "jsnum option"
  patchPeakProminence :: "jsnum option"
  patchMinPeakDistance :: "jsnum option"
  patchMinStabilityScore :: "jsnum option"
  patchMinDepthScore :: "jsnum option"
  patchLowPassAlpha :: "jsnum option"
  patchSamplingRate :: "jsnum option"
  patchBufferSize :: "jsnum option"

definition spread :: "'a \<Rightarrow> 'a option \<Rightarrow> 'a" where
  "spread old new = (case new of None \<Rightarrow> old | Some v \<Rightarrow> v)"

definition setConfig :: "SquatDetectionConfigPatch \<Rightarrow> SquatDetector \<Rightarrow> SquatDetector" where
  "setConfig patch s =
     s\<lparr>config :=
         \<lparr>minDepthThreshold = spread (minDepthThreshold (config s)) (patchMinDepthThreshold patch),
           minZAxisChange = spread (minZAxisChange (config s)) (patchMinZAxisChange patch),
           minRepDuration = spread (minRepDuration (config s)) (patchMinRepDuration patch),
           maxRepDuration = spread (maxRepDuration (config s)) (patchMaxRepDuration patch),
           peakProminence = spread (peakProminence (config s)) (patchPeakProminence patch),
           minPeakDistance = spread (minPeakDistance (config s)) (patchMinPeakDistance patch),
           minStabilityScore =
             spread (minStabilityScore (config s)) (patchMinStabilityScore patch),
           minDepthScore = spread (minDepthScore (config s)) (patchMinDepthScore patch),
           lowPassAlpha = spread (lowPassAlpha (config s)) (patchLowPassAlpha patch),
           samplingRate = spread (samplingRate (config s)) (patchSamplingRate patch),
           bufferSize = spread (bufferSize (config s)) (patchBufferSize patch)\<rparr>\<rparr>"

text \<open>
  The three calls that change a detector, and a detector driven through any sequence of
  them; the reps that \<open>detect\<close> returns are collected in the order of emission.
\<close>

datatype detectorCall =
    Detect ProcessedSensorData
  | SetConfig SquatDetectionConfigPatch
  | Reset

fun runCalls ::
  "SquatDetector \<Rightarrow> detectorCall list \<Rightarrow> SquatDetector \<times> DetectedRep list" where
  "runCalls s [] = (s, [])"
| "runCalls s (Detect dat # rest) =
     (case detect s dat of
        (s', None) \<Rightarrow> runCalls s' rest
      | (s', Some rep) \<Rightarrow> (case runCalls s' rest of (s'', reps) \<Rightarrow> (s'', rep # reps)))"
| "runCalls s (SetConfig patch # rest) = runCalls (setConfig patch s) rest"
| "runCalls s (Reset # rest) = runCalls (reset s) rest"

section \<open>Peak detector\<close>

record PeakDetectionConfig =
  prominence :: jsnum
  minDistance :: jsnum

record Peak =
  pkValue :: jsnum
  pkIndex :: nat
  pkTimestamp :: jsnum
  pkProminence :: jsnum

text \<open>
  \<open>Array.prototype.slice\<close> with two indices that are not negative, and \<open>Math.min\<close>,
  \<open>Math.max\<close> spread over an array (\<open>Infinity\<close> and \<open>-Infinity\<close> on the empty one).
\<close>

definition slice :: "'a list \<Rightarrow> nat \<Rightarrow> nat \<Rightarrow> 'a list" where
  "slice xs a b = take (b - a) (drop a xs)"

definition Math_min_all :: "jsnum list \<Rightarrow> jsnum" where
  "Math_min_all xs = foldr Math_min xs PInf"

definition Math_max_all :: "jsnum list \<Rightarrow> jsnum" where
  "Math_max_all xs = foldr Math_max xs NInf"

definition calculateProminence :: "jsnum list \<Rightarrow> nat \<Rightarrow> bool \<Rightarrow> jsnum" where
  "calculateProminence signal i isValley =
     (let peakValue = signal ! i;
          windowSize = 10;
          leftStart = nat (max 0 (int i - windowSize));
          rightEnd = min (length signal) (i + nat windowSize);
          leftWindow = slice signal leftStart i;
          rightWindow = slice signal (i + 1) rightEnd
      in if isValley then
           let leftMax = (if length leftWindow > 0 then Math_max_all leftWindow else peakValue);
               rightMax = (if length rightWindow > 0 then Math_max_all rightWindow else peakValue);
               baseline = jdiv (jadd leftMax rightMax) (Fin 2)
           in jsub baseline peakValue
         else
           let leftMin = (if length leftWindow > 0 then Math_min_all leftWindow else peakValue);
               rightMin = (if length rightWindow > 0 then Math_min_all rightWindow else peakValue);
               baseline = jdiv (jadd leftMin rightMin) (Fin 2)
           in jsub peakValue baseline)"

text \<open>
  The second loop of \<open>filterByDistance\<close>. When the first peak is not far enough from
  \<open>-Infinity\<close> (a \<open>minDistance\<close> that is \<open>NaN\<close>), the source reads \<open>prominence\<close> of the last
  element of an empty array, which throws.
\<close>

fun filterLoop ::
  "PeakDetectionConfig \<Rightarrow> Peak list \<Rightarrow> Peak list \<Rightarrow> jsnum \<Rightarrow> error + Peak list" where
  "filterLoop cfg [] filtered lastIndex = Inr filtered"
| "filterLoop cfg (peak # rest) filtered lastIndex =
     (let distance = jsub (Fin (real (pkIndex peak))) lastIndex
      in if jge distance (minDistance cfg) then
           filterLoop cfg rest (filtered @ [peak]) (Fin (real (pkIndex peak)))
         else if filtered = [] then Inl TypeError
         else if jgt (pkProminence peak) (pkProminence (last filtered)) then
           filterLoop cfg rest (butlast filtered @ [peak]) (Fin (real (pkIndex peak)))
         else filterLoop cfg rest filtered lastIndex)"

definition filterByDistance :: "PeakDetectionConfig \<Rightarrow> Peak list \<Rightarrow> error + Peak list" where
  "filterByDistance cfg peaks =
     (if length peaks \<le> 1 then Inr peaks else filterLoop cfg peaks [] NInf)"

text \<open>The scan for local maxima, over the indices \<open>1, ..., length - 2\<close>.\<close>

fun scanPeaks ::
  "PeakDetectionConfig \<Rightarrow> ProcessedSensorData list \<Rightarrow> jsnum list \<Rightarrow> nat list \<Rightarrow> Peak list" where
  "scanPeaks cfg dat signal [] = []"
| "scanPeaks cfg dat signal (i # rest) =
     (let current = signal ! i; previous = signal ! (i - 1); next = signal ! (i + 1)
      in if jgt current previous \<and> jgt current next then
           let prom = calculateProminence signal i False
           in if jge prom (prominence cfg) then
                \<lparr>pkValue = current, pkIndex = i, pkTimestamp = timestamp (dat ! i),
                  pkProminence = prom\<rparr> # scanPeaks cfg dat signal rest
              else scanPeaks cfg dat signal rest
         else scanPeaks cfg dat signal rest)"

definition findPeaks ::
  "PeakDetectionConfig \<Rightarrow> ProcessedSensorData list \<Rightarrow> bool \<Rightarrow> error + Peak list" where
  "findPeaks cfg dat useFiltered =
     (if length dat < 3 then Inr []
      else
        let signal = map (\<lambda>d. if useFiltered then filteredMagnitude d else magnitude d) dat
        in filterByDistance cfg (scanPeaks cfg dat signal [1 ..< length signal - 1]))"

text \<open>
  The prominence of a peak as the specification words it: the peak's value minus the
  average of the two minima found among the 10 samples before it and the 10 samples after
  it, the windows clipped at the ends of the signal and the peak's own value standing in
  for an empty side.
\<close>

definition prominence_spec :: "jsnum list \<Rightarrow> nat \<Rightarrow> jsnum" where
  "prominence_spec signal i =
     (let before = slice signal (i - 10) i;
          after = slice signal (i + 1) (i + 1 + 10);
          leftMin = (if before = [] then signal ! i else Math_min_all before);
          rightMin = (if after = [] then signal ! i else Math_min_all after)
      in jsub (signal ! i) (jdiv (jadd leftMin rightMin) (Fin 2)))"

section \<open>Motion engine\<close>

datatype MotionEngineState = engine_idle | starting | active | paused | stopped

text \<open>
  The callbacks are the caller's code. The engine is given what each of them answers
  (\<open>Inr ()\<close> when it returns, \<open>Inl e\<close> when it throws \<open>e\<close>), and records every call it makes
  in \<open>calls\<close>, a trace kept for the statements below.
\<close>

record MotionEngineCallbacks =
  onRepDetected :: "DetectedRep \<Rightarrow> error + unit"
  onStateChange :: "MotionEngineState \<Rightarrow> error + unit"
  onError :: "error \<Rightarrow> error + unit"

datatype callback_call =
    RepDetectedCall DetectedRep
  | StateChangeCall MotionEngineState
  | ErrorCall error

text \<open>
  Of the sensor adapter, the engine's sample handler uses \<open>stop\<close> only: the subscription
  and the running flag.
\<close>

record SensorAdapter =
  subscribed :: bool
  isActive :: bool

definition SensorAdapter_stop :: "SensorAdapter \<Rightarrow> SensorAdapter" where
  "SensorAdapter_stop a = a\<lparr>subscribed := False, isActive := False\<rparr>"

text \<open>
  The handler calls its three stages inside \<open>try\<close> blocks. What a stage call does, a throw
  included, is a parameter of the model; \<open>sourceStages\<close> are the stages of the source, none
  of which throws on numbers.
\<close>

record PipelineStages =
  stageProcess ::
    "SignalProcessor \<Rightarrow> AccelerometerData \<Rightarrow> SignalProcessor \<times> (error + ProcessedSensorData)"
  stageDetect ::
    "SquatDetector \<Rightarrow> ProcessedSensorData \<Rightarrow> SquatDetector \<times> (error + DetectedRep option)"
  stageScore :: "ScoringEngine \<Rightarrow> RepFeatures \<Rightarrow> error + RepScore"

definition sourceStages :: PipelineStages where
  "sourceStages =
     \<lparr>stageProcess = (\<lambda>p raw. case SignalProcessor_process p raw of (p', d) \<Rightarrow> (p', Inr d)),
       stageDetect = (\<lambda>s d. case detect s d of (s', r) \<Rightarrow> (s', Inr r)),
       stageScore = (\<lambda>eng feats. Inr (score eng feats))\<rparr>"

record MotionEngine =
  callbacks :: MotionEngineCallbacks
  sensorAdapter :: SensorAdapter
  signalProcessor :: SignalProcessor
  detector :: SquatDetector
  scorer :: ScoringEngine
  state :: MotionEngineState
  lastRepTimestamp :: "jsnum option"
  totalScore :: jsnum
  scoreCount :: nat
  recentData :: "ProcessedSensorData list"
  consecutivePipelineErrors :: nat
  calls :: "callback_call list"

definition MAX_RECENT_DATA :: nat where
  "MAX_RECENT_DATA = 60"

definition MAX_CONSECUTIVE_ERRORS :: nat where
  "MAX_CONSECUTIVE_ERRORS = 10"

definition setState :: "MotionEngine \<Rightarrow> MotionEngineState \<Rightarrow> MotionEngine \<times> (error + unit)" where
  "setState e newState =
     (let previousState = state e; e1 = e\<lparr>state := newState\<rparr>
      in if previousState \<noteq> newState then
           (e1\<lparr>calls := calls e1 @ [StateChangeCall newState]\<rparr>,
            onStateChange (callbacks e1) newState)
         else (e1, Inr ()))"

definition pause :: "MotionEngine \<Rightarrow> MotionEngine \<times> (error + unit)" where
  "pause e = (if state e \<noteq> active then (e, Inl NotRunning) else setState e paused)"

definition resume :: "MotionEngine \<Rightarrow> MotionEngine \<times> (error + unit)" where
  "resume e = (if state e \<noteq> paused then (e, Inl NotPaused) else setState e active)"

definition stop :: "MotionEngine \<Rightarrow> MotionEngine \<times> (error + unit)" where
  "stop e =
     (if state e = engine_idle \<or> state e = stopped then (e, Inr ())
      else setState (e\<lparr>sensorAdapter := SensorAdapter_stop (sensorAdapter e)\<rparr>) stopped)"

definition addToRecentData :: "MotionEngine \<Rightarrow> ProcessedSensorData \<Rightarrow> MotionEngine" where
  "addToRecentData e dat =
     (let e1 = e\<lparr>recentData := recentData e @ [dat]\<rparr>
      in if length (recentData e1) > MAX_RECENT_DATA
         then e1\<lparr>recentData := tl (recentData e1)\<rparr> else e1)"

text \<open>
  Step 4 of the handler: score the rep, update the metrics, call \<open>onRepDetected\<close>. A throw
  of the callback is caught and only logged; a throw of the scorer is counted.
\<close>

definition scoreAndNotify :: "PipelineStages \<Rightarrow> MotionEngine \<Rightarrow> DetectedRep \<Rightarrow> MotionEngine" where
  "scoreAndNotify st e rep =
     (case stageScore st (scorer e) (features rep) of
        Inl scoringError \<Rightarrow>
          e\<lparr>consecutivePipelineErrors := consecutivePipelineErrors e + 1\<rparr>
      | Inr sc \<Rightarrow>
          let repWithScore = rep\<lparr>repScore := Some sc\<rparr>;
              e1 = e\<lparr>lastRepTimestamp := Some (repTimestamp rep),
                     totalScore := jadd (totalScore e) (overall sc),
                     scoreCount := scoreCount e + 1\<rparr>
          in (case onRepDetected (callbacks e1) repWithScore of
                Inl callbackError \<Rightarrow> e1\<lparr>calls := calls e1 @ [RepDetectedCall repWithScore]\<rparr>
              | Inr _ \<Rightarrow> e1\<lparr>calls := calls e1 @ [RepDetectedCall repWithScore]\<rparr>))"

text \<open>
  \<open>handleSensorData\<close>. The second component of the result says whether the call returned
  or an exception left it. Inside the outer \<open>try\<close> every operation that can throw has a
  handler of its own, so the outer \<open>catch\<close> is never entered and has no branch here.
\<close>

definition handleSensorData ::
  "PipelineStages \<Rightarrow> MotionEngine \<Rightarrow> AccelerometerData \<Rightarrow> MotionEngine \<times> (error + unit)" where
  "handleSensorData st e rawData =
     (if state e \<noteq> active then (e, Inr ())
      else if consecutivePipelineErrors e \<ge> MAX_CONSECUTIVE_ERRORS then
        (case stop e of
           (e1, Inl thrown) \<Rightarrow> (e1, Inl thrown)
         | (e1, Inr _) \<Rightarrow>
             (e1\<lparr>calls := calls e1 @ [ErrorCall ExcessiveErrors]\<rparr>,
              onError (callbacks e1) ExcessiveErrors))
      else
        (case stageProcess st (signalProcessor e) rawData of
           (p, Inl processorError) \<Rightarrow>
             (e\<lparr>signalProcessor := p,
                consecutivePipelineErrors := consecutivePipelineErrors e + 1\<rparr>, Inr ())
         | (p, Inr processed) \<Rightarrow>
             let e1 = addToRecentData (e\<lparr>signalProcessor := p\<rparr>) processed
             in (case stageDetect st (detector e1) processed of
                   (d, Inl detectorError) \<Rightarrow>
                     (e1\<lparr>detector := d,
                         consecutivePipelineErrors := consecutivePipelineErrors e1 + 1\<rparr>, Inr ())
                 | (d, Inr detectedRep) \<Rightarrow>
                     let e2 = e1\<lparr>detector := d\<rparr>;
                         e3 = (case detectedRep of
                                 None \<Rightarrow> e2
                               | Some rep \<Rightarrow> if isValid rep then scoreAndNotify st e2 rep else e2)
                     in (e3\<lparr>consecutivePipelineErrors := 0\<rparr>, Inr ()))))"

text \<open>
  The sensor listener hands every sample to \<open>handleSensorData\<close>; an exception that leaves
  the handler leaves the engine as it was when thrown.
\<close>

fun deliver :: "PipelineStages \<Rightarrow> MotionEngine \<Rightarrow> AccelerometerData list \<Rightarrow> MotionEngine" where
  "deliver st e [] = e"
| "deliver st e (rawData # rest) = deliver st (fst (handleSensorData st e rawData)) rest"

section \<open>A squat, sample by sample\<close>

text \<open>
  A stream of raw samples through the signal processor, the filter state carried along.
\<close>

fun SignalProcessor_processAll ::
  "SignalProcessor \<Rightarrow> AccelerometerData list \<Rightarrow> SignalProcessor \<times> ProcessedSensorData list" where
  "SignalProcessor_processAll p [] = (p, [])"
| "SignalProcessor_processAll p (raw # rest) =
     (case SignalProcessor_process p raw of
        (p', d) \<Rightarrow> (case SignalProcessor_processAll p' rest of (p'', ds) \<Rightarrow> (p'', d # ds)))"

text \<open>
  Example data for the statements below: a phone moving along its Z axis only, read every
  100 ms. \<open>squatStream\<close> is one squat (standing, dropping, rising again); through a
  filter with smoothing factor 1/2 and the default detector it gives one accepted rep, on
  its last sample, and \<open>secondSquatStream\<close> after it gives a second one.
\<close>

definition rawSample :: "real \<Rightarrow> real \<Rightarrow> AccelerometerData" where
  "rawSample t v = \<lparr>accX = Fin 0, accY = Fin 0, accZ = Fin v, timestamp = Fin t\<rparr>"

definition squatStream :: "AccelerometerData list" where
  "squatStream =
     [rawSample 0 2, rawSample 100 0, rawSample 200 0,
      rawSample 300 2, rawSample 400 2, rawSample 500 2]"

definition secondSquatStream :: "AccelerometerData list" where
  "secondSquatStream =
     [rawSample 600 2, rawSample 700 0, rawSample 800 0,
      rawSample 900 2, rawSample 1000 2, rawSample 1100 2]"

definition coldProcessor :: SignalProcessor where
  "coldProcessor =
     \<lparr>lowPassFilter = \<lparr>alpha = Fin (1 / 2), previousX = Fin 0, previousY = Fin 0,
                        previousZ = Fin 0, isInitialized = False\<rparr>\<rparr>"

definition squatSamples :: "ProcessedSensorData list" where
  "squatSamples = snd (SignalProcessor_processAll coldProcessor (squatStream @ secondSquatStream))"

text \<open>
  What the processor makes of a reading \<open>r\<close> on the Z axis at time \<open>t\<close> when the filtered
  value comes out as \<open>v\<close>, and two states the detector passes through on \<open>squatSamples\<close>:
  after its second sample (descending since 100 ms) and after its fifth (ascending since
  400 ms).
\<close>

definition zSample :: "real \<Rightarrow> real \<Rightarrow> real \<Rightarrow> ProcessedSensorData" where
  "zSample t r v =
     \<lparr>accX = Fin 0, accY = Fin 0, accZ = Fin r, timestamp = Fin t, magnitude = Fin \<bar>r\<bar>,
       filteredX = Fin 0, filteredY = Fin 0, filteredZ = Fin v, filteredMagnitude = Fin \<bar>v\<bar>\<rparr>"

definition descendingExample :: "SquatDetectionConfig \<Rightarrow> SquatDetector" where
  "descendingExample cfg =
     \<lparr>config = cfg, currentPhase = descending, repCount = 0, repStartTime = Fin 100,
       descendStartTime = Fin 100, bottomTime = Fin 0, ascendStartTime = Fin 0,
       peakMagnitude = Fin 1, valleyMagnitude = PInf, peakZValue = Fin 0,
       valleyZValue = Fin 0\<rparr>"

definition ascendingExample :: "SquatDetectionConfig \<Rightarrow> SquatDetector" where
  "ascendingExample cfg =
     \<lparr>config = cfg, currentPhase = ascending, repCount = 0, repStartTime = Fin 100,
       descendStartTime = Fin 100, bottomTime = Fin 300, ascendStartTime = Fin 400,
       peakMagnitude = Fin (13 / 8), valleyMagnitude = Fin (1 / 2), peakZValue = Fin (13 / 8),
       valleyZValue = Fin 0\<rparr>"

text \<open>A configuration that asks for reps of at least one second.\<close>

definition strictConfig :: SquatDetectionConfig where
  "strictConfig = DEFAULT_SQUAT_CONFIG\<lparr>minRepDuration := Fin 1000\<rparr>"

text \<open>
  The invariant of the magnitude tracking: the running peak is never \<open>NaN\<close>, the running
  valley is neither \<open>NaN\<close> nor \<open>-Infinity\<close>, and from the bottom phase on the valley has
  left its initial \<open>Infinity\<close>.
\<close>

definition tracking_ok :: "SquatDetector \<Rightarrow> bool" where
  "tracking_ok s =
     (peakMagnitude s \<noteq> NaN \<and> valleyMagnitude s \<noteq> NInf \<and> valleyMagnitude s \<noteq> NaN \<and>
      (currentPhase s = bottom \<or> currentPhase s = ascending \<longrightarrow> valleyMagnitude s \<noteq> PInf))"

text \<open>
  A window of twelve samples for the peak detector: a single peak of 1 at index 1, a
  plateau of 1/2 after it, and a drop to 0 at index 11, ten samples after the peak.
\<close>

definition plateauWindow :: "ProcessedSensorData list" where
  "plateauWindow =
     [zSample 0 0 0, zSample 100 1 1, zSample 200 (1 / 2) (1 / 2), zSample 300 (1 / 2) (1 / 2),
      zSample 400 (1 / 2) (1 / 2), zSample 500 (1 / 2) (1 / 2), zSample 600 (1 / 2) (1 / 2),
      zSample 700 (1 / 2) (1 / 2), zSample 800 (1 / 2) (1 / 2), zSample 900 (1 / 2) (1 / 2),
      zSample 1000 (1 / 2) (1 / 2), zSample 1100 0 0]"

definition quietCallbacks :: MotionEngineCallbacks where
  "quietCallbacks =
     \<lparr>onRepDetected = (\<lambda>rep. Inr ()), onStateChange = (\<lambda>newState. Inr ()),
       onError = (\<lambda>err. Inr ())\<rparr>"

definition exampleEngine :: MotionEngine where
  "exampleEngine =
     \<lparr>callbacks = quietCallbacks,
       sensorAdapter = \<lparr>subscribed = True, isActive = True\<rparr>,
       signalProcessor = coldProcessor,
       detector = SquatDetector_new DEFAULT_SQUAT_CONFIG,
       scorer = \<lparr>weights = DEFAULT_WEIGHTS\<rparr>,
       state = active, lastRepTimestamp = None, totalScore = Fin 0, scoreCount = 0,
       recentData = [], consecutivePipelineErrors = 0, calls = []\<rparr>"

text \<open>
  The same engine in the hands of a caller whose \<open>onStateChange\<close> throws.
\<close>

definition throwingCallbackEngine :: MotionEngine where
  "throwingCallbackEngine =
     exampleEngine
       \<lparr>callbacks := quietCallbacks\<lparr>onStateChange := (\<lambda>newState. Inl CallbackFailure)\<rparr>\<rparr>"

text \<open>
  An engine in the middle of \<open>squatStream\<close>: active, no error counted, five samples
  handled, the filter warm and the detector at \<open>ascendingExample\<close>. The next sample of the
  stream, \<open>rawSample 500 2\<close>, completes a valid rep.
\<close>

definition ascendingEngine :: MotionEngine where
  "ascendingEngine =
     exampleEngine
       \<lparr>signalProcessor :=
          \<lparr>lowPassFilter = \<lparr>alpha = Fin (1 / 2), previousX = Fin 0, previousY = Fin 0,
                             previousZ = Fin (13 / 8), isInitialized = True\<rparr>\<rparr>,
        detector := ascendingExample DEFAULT_SQUAT_CONFIG,
        recentData := take 5 squatSamples\<rparr>"

text \<open>
  The stages of the source, but with a scorer that throws, and the same with a processor
  that throws.
\<close>

definition faultyScorerStages :: PipelineStages where
  "faultyScorerStages = sourceStages\<lparr>stageScore := (\<lambda>eng feats. Inl StageFailure)\<rparr>"

definition faultyProcessorStages :: PipelineStages where
  "faultyProcessorStages = sourceStages\<lparr>stageProcess := (\<lambda>p raw. (p, Inl StageFailure))\<rparr>"

section \<open>Facts about the number model\<close>

lemma jsub_Fin [simp]: "jsub (Fin a) (Fin b) = Fin (a - b)"
  by (simp add: jsub_def)

lemma jgt_Fin [simp]: "jgt (Fin a) (Fin b) = (b < a)"
  by (simp add: jgt_def)

lemma jge_Fin [simp]: "jge (Fin a) (Fin b) = (b \<le> a)"
  by (auto simp: jge_def)

lemma jle_Fin [simp]: "jle (Fin a) (Fin b) = (a \<le> b)"
  by auto

section \<open>The filter's cold start\<close>

text \<open>
  Claim C5. A filter constructed with the smoothing factor \<open>\<alpha>\<close> holds that factor, and
  \<open>reset\<close> leaves the factor of a filter as it is. A filter that has just been constructed,
  or has just been reset, returns the first input \<open>(x, y, z)\<close> unchanged; the call after
  that, with input \<open>(x', y', z')\<close>, returns \<open>\<alpha> * x' + (1 - \<alpha>) * x\<close> on each axis, the
  recurrence applied to the values the first call stored, where \<open>*\<close>, \<open>+\<close> and \<open>-\<close> are the
  operations of JavaScript, applied in the order in which \<open>filter\<close> applies them. The
  statement holds for every number, the special values included.
\<close>

theorem LowPassFilter_cold_start:
  "(LowPassFilter_new a = Inr f \<longrightarrow>
      alpha f = a \<and>
      snd (LowPassFilter_filter f x y z) = (x, y, z) \<and>
      snd (LowPassFilter_filter (fst (LowPassFilter_filter f x y z)) x' y' z') =
        (jadd (jmul a x') (jmul (jsub (Fin 1) a) x),
         jadd (jmul a y') (jmul (jsub (Fin 1) a) y),
         jadd (jmul a z') (jmul (jsub (Fin 1) a) z))) \<and>
   alpha (LowPassFilter_reset g) = alpha g \<and>
   snd (LowPassFilter_filter (LowPassFilter_reset g) x y z) = (x, y, z) \<and>
   snd (LowPassFilter_filter (fst (LowPassFilter_filter (LowPassFilter_reset g) x y z))
          x' y' z') =
     (jadd (jmul (alpha g) x') (jmul (jsub (Fin 1) (alpha g)) x),
      jadd (jmul (alpha g) y') (jmul (jsub (Fin 1) (alpha g)) y),
      jadd (jmul (alpha g) z') (jmul (jsub (Fin 1) (alpha g)) z))"
proof -
  have constructed: "LowPassFilter_new a = Inr f \<Longrightarrow> alpha f = a \<and> \<not> isInitialized f"
    by (auto simp: LowPassFilter_new_def split: if_splits)
  have afterReset: "alpha (LowPassFilter_reset g) = alpha g \<and>
      \<not> isInitialized (LowPassFilter_reset g)"
    by (simp add: LowPassFilter_reset_def)
  have cold: "\<And>h. \<not> isInitialized h \<Longrightarrow>
      snd (LowPassFilter_filter h x y z) = (x, y, z) \<and>
      snd (LowPassFilter_filter (fst (LowPassFilter_filter h x y z)) x' y' z') =
        (jadd (jmul (alpha h) x') (jmul (jsub (Fin 1) (alpha h)) x),
         jadd (jmul (alpha h) y') (jmul (jsub (Fin 1) (alpha h)) y),
         jadd (jmul (alpha h) z') (jmul (jsub (Fin 1) (alpha h)) z))"
    by (simp add: LowPassFilter_filter_def Let_def)
  show ?thesis
    using constructed cold [of f] cold [of "LowPassFilter_reset g"] afterReset
    by auto
qed

theorem LowPassFilter_cold_start_witness:
  "LowPassFilter_new (Fin (1 / 4)) =
     Inr \<lparr>alpha = Fin (1 / 4), previousX = Fin 0, previousY = Fin 0, previousZ = Fin 0,
           isInitialized = False\<rparr> \<and>
   snd (LowPassFilter_filter
          \<lparr>alpha = Fin (1 / 4), previousX = Fin 0, previousY = Fin 0, previousZ = Fin 0,
            isInitialized = False\<rparr> (Fin 1) (Fin 2) (Fin 3)) = (Fin 1, Fin 2, Fin 3) \<and>
   snd (LowPassFilter_filter (fst (LowPassFilter_filter
          \<lparr>alpha = Fin (1 / 4), previousX = Fin 0, previousY = Fin 0, previousZ = Fin 0,
            isInitialized = False\<rparr> (Fin 1) (Fin 2) (Fin 3))) (Fin 5) (Fin 6) (Fin 7)) =
     (Fin 2, Fin 3, Fin 4)"
proof -
  have new: "LowPassFilter_new (Fin (1 / 4)) =
      Inr \<lparr>alpha = Fin (1 / 4), previousX = Fin 0, previousY = Fin 0, previousZ = Fin 0,
            isInitialized = False\<rparr>"
    by (simp add: LowPassFilter_new_def)
  show ?thesis
    using new LowPassFilter_cold_start [of "Fin (1 / 4)" _ "Fin 1" "Fin 2" "Fin 3"
        "Fin 5" "Fin 6" "Fin 7"]
    by simp
qed

section \<open>Which smoothing factors the filter accepts\<close>

text \<open>
  Claim C6, as the code has it. The constructor and \<open>setAlpha\<close> reject a smoothing factor
  below 0 or above 1, the infinities included, and accept every factor of the closed
  interval from 0 to 1: the guard is \<open>alpha < 0 || alpha > 1\<close>, so the end points pass.
\<close>

theorem LowPassFilter_alpha_closed_interval:
  "(r < 0 \<or> 1 < r \<longrightarrow>
      LowPassFilter_new (Fin r) = Inl AlphaOutOfRange \<and>
      LowPassFilter_setAlpha f (Fin r) = Inl AlphaOutOfRange) \<and>
   LowPassFilter_new PInf = Inl AlphaOutOfRange \<and>
   LowPassFilter_new NInf = Inl AlphaOutOfRange \<and>
   LowPassFilter_setAlpha f PInf = Inl AlphaOutOfRange \<and>
   LowPassFilter_setAlpha f NInf = Inl AlphaOutOfRange \<and>
   (0 \<le> r \<and> r \<le> 1 \<longrightarrow>
      LowPassFilter_new (Fin r) =
        Inr \<lparr>alpha = Fin r, previousX = Fin 0, previousY = Fin 0, previousZ = Fin 0,
              isInitialized = False\<rparr> \<and>
      LowPassFilter_setAlpha f (Fin r) = Inr (f\<lparr>alpha := Fin r\<rparr>))"
  by (auto simp: LowPassFilter_new_def LowPassFilter_setAlpha_def jgt_def)

theorem LowPassFilter_alpha_closed_interval_witness:
  "LowPassFilter_new (Fin 2) = Inl AlphaOutOfRange \<and>
   LowPassFilter_new (Fin (22 / 100)) =
     Inr \<lparr>alpha = Fin (22 / 100), previousX = Fin 0, previousY = Fin 0, previousZ = Fin 0,
           isInitialized = False\<rparr>"
proof -
  have "LowPassFilter_new (Fin 2) = Inl AlphaOutOfRange"
    using LowPassFilter_alpha_closed_interval [of 2] by simp
  moreover have "LowPassFilter_new (Fin (22 / 100)) =
     Inr \<lparr>alpha = Fin (22 / 100), previousX = Fin 0, previousY = Fin 0, previousZ = Fin 0,
           isInitialized = False\<rparr>"
    using LowPassFilter_alpha_closed_interval [of "22 / 100"] by simp
  ultimately show ?thesis by simp
qed

text \<open>
  The claim as the specification words it asks that every factor outside the open interval
  fail. The factor 0 is outside the open interval, and both the constructor and
  \<open>setAlpha\<close> accept it.
\<close>

theorem LowPassFilter_alpha_zero_accepted:
  "\<not> ((0::real) < 0 \<and> (0::real) < 1) \<and>
   LowPassFilter_new (Fin 0) =
     Inr \<lparr>alpha = Fin 0, previousX = Fin 0, previousY = Fin 0, previousZ = Fin 0,
           isInitialized = False\<rparr> \<and>
   LowPassFilter_setAlpha
     \<lparr>alpha = Fin (22 / 100), previousX = Fin 0, previousY = Fin 0, previousZ = Fin 0,
       isInitialized = False\<rparr> (Fin 0) =
     Inr \<lparr>alpha = Fin 0, previousX = Fin 0, previousY = Fin 0, previousZ = Fin 0,
           isInitialized = False\<rparr>"
  by (simp add: LowPassFilter_new_def LowPassFilter_setAlpha_def)

section \<open>The detector's steps\<close>

lemma detect_ascending:
  "currentPhase s = ascending \<Longrightarrow>
   detect s dat = handleAscendingPhase (updatePeakMagnitude (filteredMagnitude dat) s) dat"
  by (simp add: detect_def updatePeakMagnitude_def Let_def)

lemma updatePeakMagnitude_fields [simp]:
  "currentPhase (updatePeakMagnitude m s) = currentPhase s"
  "repCount (updatePeakMagnitude m s) = repCount s"
  "config (updatePeakMagnitude m s) = config s"
  "repStartTime (updatePeakMagnitude m s) = repStartTime s"
  "descendStartTime (updatePeakMagnitude m s) = descendStartTime s"
  "bottomTime (updatePeakMagnitude m s) = bottomTime s"
  "ascendStartTime (updatePeakMagnitude m s) = ascendStartTime s"
  "valleyMagnitude (updatePeakMagnitude m s) = valleyMagnitude s"
  "peakZValue (updatePeakMagnitude m s) = peakZValue s"
  "valleyZValue (updatePeakMagnitude m s) = valleyZValue s"
  by (simp_all add: updatePeakMagnitude_def)

lemma tracking_fields [simp]:
  "peakMagnitude (updateValleyMagnitude m s) = peakMagnitude s"
  "currentPhase (updateValleyMagnitude m s) = currentPhase s"
  "peakMagnitude (updateZAxisTracking zv s) = peakMagnitude s"
  "valleyMagnitude (updateZAxisTracking zv s) = valleyMagnitude s"
  "currentPhase (updateZAxisTracking zv s) = currentPhase s"
  by (simp_all add: updateValleyMagnitude_def updateZAxisTracking_def Let_def)

lemma reset_after_update:
  "resetRepState (transitionToPhase idle (updatePeakMagnitude m s)) =
   s\<lparr>currentPhase := idle, repStartTime := Fin 0, descendStartTime := Fin 0,
     bottomTime := Fin 0, ascendStartTime := Fin 0, peakMagnitude := Fin 0,
     valleyMagnitude := PInf, peakZValue := Fin 0, valleyZValue := Fin 0\<rparr>"
  by (simp add: resetRepState_def transitionToPhase_def updatePeakMagnitude_def)

lemma detect_descending:
  "currentPhase s = descending \<Longrightarrow>
   detect s dat = handleDescendingPhase
     (updateZAxisTracking (filteredZ dat)
        (updateValleyMagnitude (filteredMagnitude dat)
           (updatePeakMagnitude (filteredMagnitude dat) s))) dat"
  by (simp add: detect_def updatePeakMagnitude_def updateValleyMagnitude_def
      updateZAxisTracking_def Let_def)

lemma reset_after_tracking:
  "resetRepState (transitionToPhase idle
     (updateZAxisTracking zv (updateValleyMagnitude m (updatePeakMagnitude m s)))) =
   s\<lparr>currentPhase := idle, repStartTime := Fin 0, descendStartTime := Fin 0,
     bottomTime := Fin 0, ascendStartTime := Fin 0, peakMagnitude := Fin 0,
     valleyMagnitude := PInf, peakZValue := Fin 0, valleyZValue := Fin 0\<rparr>"
  by (simp add: resetRepState_def transitionToPhase_def updatePeakMagnitude_def
      updateValleyMagnitude_def updateZAxisTracking_def Let_def)

lemma tracking_descendStartTime:
  "descendStartTime (updateZAxisTracking zv (updateValleyMagnitude m (updatePeakMagnitude m s)))
     = descendStartTime s"
  by (simp add: updatePeakMagnitude_def updateValleyMagnitude_def updateZAxisTracking_def Let_def)

section \<open>One squat through the processor and the detector\<close>

text \<open>
  The example stream, evaluated step by step: \<open>squatSamples\<close> is what the processor makes
  of the two raw streams, its first two samples take a fresh detector to
  \<open>descendingExample\<close>, the next three to \<open>ascendingExample\<close>, and the sixth completes
  a rep that passes validation under the default configuration.
\<close>

lemma calculateMagnitude_z: "calculateMagnitude (Fin 0) (Fin 0) (Fin c) = Fin \<bar>c\<bar>"
  by (simp add: calculateMagnitude_def)

lemma squatSamples_eval:
  "squatSamples =
     [zSample 0 2 2,
      zSample 100 0 1,
      zSample 200 0 (1 / 2),
      zSample 300 2 (5 / 4),
      zSample 400 2 (13 / 8),
      zSample 500 2 (29 / 16),
      zSample 600 2 (61 / 32),
      zSample 700 0 (61 / 64),
      zSample 800 0 (61 / 128),
      zSample 900 2 (317 / 256),
      zSample 1000 2 (829 / 512),
      zSample 1100 2 (1853 / 1024)]"
  by (simp add: squatSamples_def squatStream_def secondSquatStream_def rawSample_def
      coldProcessor_def SignalProcessor_process_def LowPassFilter_filter_def Let_def
      calculateMagnitude_z zSample_def)

lemmas step_defs = detect_def handleIdlePhase_def handleDescendingPhase_def
  handleBottomPhase_def handleAscendingPhase_def resetRepState_def transitionToPhase_def
  updatePeakMagnitude_def updateValleyMagnitude_def updateZAxisTracking_def
  MAGNITUDE_DROP_THRESHOLD_def MAGNITUDE_RISE_THRESHOLD_def Let_def zSample_def

lemmas validate_defs = validateRep_def createDetectedRep_def calculateMagnitudeChange_def
  calculateDuration_def isValidDuration_def RepFeatureExtractor_extract_def
  calculateDepthScore_def calculateStabilityScore_def Math_max_def Math_min_def jeq_def
  DEFAULT_SQUAT_CONFIG_def Let_def

lemma squat_reaches_descending:
  "detectAll (SquatDetector_new cfg) (take 2 squatSamples) = (descendingExample cfg, [])"
proof -
  have s1: "detect
     \<lparr>config = cfg, currentPhase = idle, repCount = 0, repStartTime = Fin 0,
       descendStartTime = Fin 0, bottomTime = Fin 0, ascendStartTime = Fin 0,
       peakMagnitude = Fin 0, valleyMagnitude = PInf, peakZValue = Fin 0,
       valleyZValue = Fin 0\<rparr>
     (zSample 0 2 2) =
    (\<lparr>config = cfg, currentPhase = idle, repCount = 0, repStartTime = Fin 0,
       descendStartTime = Fin 0, bottomTime = Fin 0, ascendStartTime = Fin 0,
       peakMagnitude = Fin 2, valleyMagnitude = PInf, peakZValue = Fin 2,
       valleyZValue = Fin 0\<rparr>, None)"
    by (simp add: step_defs)
  have s2: "detect
     \<lparr>config = cfg, currentPhase = idle, repCount = 0, repStartTime = Fin 0,
       descendStartTime = Fin 0, bottomTime = Fin 0, ascendStartTime = Fin 0,
       peakMagnitude = Fin 2, valleyMagnitude = PInf, peakZValue = Fin 2,
       valleyZValue = Fin 0\<rparr>
     (zSample 100 0 1) =
    (\<lparr>config = cfg, currentPhase = descending, repCount = 0, repStartTime = Fin 100,
       descendStartTime = Fin 100, bottomTime = Fin 0, ascendStartTime = Fin 0,
       peakMagnitude = Fin 1, valleyMagnitude = PInf, peakZValue = Fin 0,
       valleyZValue = Fin 0\<rparr>, None)"
    by (simp add: step_defs)
  show ?thesis
    by (simp add: squatSamples_eval SquatDetector_new_def descendingExample_def s1 s2)
qed

lemma squat_reaches_ascending:
  "detectAll (descendingExample cfg) (take 3 (drop 2 squatSamples)) = (ascendingExample cfg, [])"
proof -
  have s3: "detect
     \<lparr>config = cfg, currentPhase = descending, repCount = 0, repStartTime = Fin 100,
       descendStartTime = Fin 100, bottomTime = Fin 0, ascendStartTime = Fin 0,
       peakMagnitude = Fin 1, valleyMagnitude = PInf, peakZValue = Fin 0,
       valleyZValue = Fin 0\<rparr>
     (zSample 200 0 (1 / 2)) =
    (\<lparr>config = cfg, currentPhase = descending, repCount = 0, repStartTime = Fin 100,
       descendStartTime = Fin 100, bottomTime = Fin 0, ascendStartTime = Fin 0,
       peakMagnitude = Fin 1, valleyMagnitude = Fin (1 / 2), peakZValue = Fin (1 / 2),
       valleyZValue = Fin 0\<rparr>, None)"
    by (simp add: step_defs)
  have s4: "detect
     \<lparr>config = cfg, currentPhase = descending, repCount = 0, repStartTime = Fin 100,
       descendStartTime = Fin 100, bottomTime = Fin 0, ascendStartTime = Fin 0,
       peakMagnitude = Fin 1, valleyMagnitude = Fin (1 / 2), peakZValue = Fin (1 / 2),
       valleyZValue = Fin 0\<rparr>
     (zSample 300 2 (5 / 4)) =
    (\<lparr>config = cfg, currentPhase = bottom, repCount = 0, repStartTime = Fin 100,
       descendStartTime = Fin 100, bottomTime = Fin 300, ascendStartTime = Fin 0,
       peakMagnitude = Fin (5 / 4), valleyMagnitude = Fin (1 / 2), peakZValue = Fin (5 / 4),
       valleyZValue = Fin 0\<rparr>, None)"
    by (simp add: step_defs)
  have s5: "detect
     \<lparr>config = cfg, currentPhase = bottom, repCount = 0, repStartTime = Fin 100,
       descendStartTime = Fin 100, bottomTime = Fin 300, ascendStartTime = Fin 0,
       peakMagnitude = Fin (5 / 4), valleyMagnitude = Fin (1 / 2), peakZValue = Fin (5 / 4),
       valleyZValue = Fin 0\<rparr>
     (zSample 400 2 (13 / 8)) =
    (\<lparr>config = cfg, currentPhase = ascending, repCount = 0, repStartTime = Fin 100,
       descendStartTime = Fin 100, bottomTime = Fin 300, ascendStartTime = Fin 400,
       peakMagnitude = Fin (13 / 8), valleyMagnitude = Fin (1 / 2), peakZValue = Fin (13 / 8),
       valleyZValue = Fin 0\<rparr>, None)"
    by (simp add: step_defs)
  show ?thesis
    by (simp add: squatSamples_eval ascendingExample_def descendingExample_def s3 s4 s5)
qed

lemma squat_candidate_valid:
  "validateRep (updatePeakMagnitude (Fin (29 / 16)) (ascendingExample DEFAULT_SQUAT_CONFIG))
     (createDetectedRep (updatePeakMagnitude (Fin (29 / 16)) (ascendingExample DEFAULT_SQUAT_CONFIG))
        (Fin 500))"
  by (simp add: validate_defs ascendingExample_def updatePeakMagnitude_def)

lemma squat_accepted:
  "detect (ascendingExample DEFAULT_SQUAT_CONFIG) (zSample 500 2 (29 / 16)) =
     ((SquatDetector_new DEFAULT_SQUAT_CONFIG)\<lparr>repCount := Suc 0\<rparr>,
      Some ((createDetectedRep
               (updatePeakMagnitude (Fin (29 / 16)) (ascendingExample DEFAULT_SQUAT_CONFIG))
               (Fin 500))\<lparr>isValid := True\<rparr>))"
proof -
  have phase: "currentPhase (ascendingExample DEFAULT_SQUAT_CONFIG) = ascending"
    by (simp add: ascendingExample_def)
  have fm: "filteredMagnitude (zSample 500 2 (29 / 16)) = Fin (29 / 16)"
    "timestamp (zSample 500 2 (29 / 16)) = Fin 500"
    by (simp_all add: zSample_def)
  show ?thesis
    unfolding detect_ascending [OF phase] fm handleAscendingPhase_def
    using squat_candidate_valid
    by (simp add: fm ascendingExample_def DEFAULT_SQUAT_CONFIG_def SquatDetector_new_def
        resetRepState_def transitionToPhase_def updatePeakMagnitude_def)
qed

section \<open>A rep that fails validation\<close>

text \<open>
  Claim C1. Let the detector be in the ascending phase and let a sample arrive for which
  the phase has not timed out and the recovery \<open>filteredMagnitude - valleyMagnitude\<close>
  reaches \<open>minDepthThreshold\<close>, so that the candidate rep is built. If any of the five
  validation checks fails for that candidate, \<open>detect\<close> returns no rep, leaves the rep
  counter (and the configuration) as they were, and leaves the detector in the idle phase
  with every field of the rep in progress back at its initial value.
\<close>

theorem rejected_rep_resets:
  assumes "currentPhase s = ascending"
    and "\<not> jgt (jsub (timestamp dat) (ascendStartTime s)) (Fin 5000)"
    and "jge (jsub (filteredMagnitude dat) (valleyMagnitude s)) (minDepthThreshold (config s))"
    and "rep = createDetectedRep (updatePeakMagnitude (filteredMagnitude dat) s) (timestamp dat)"
    and "jlt (depth rep) (minDepthThreshold (config s)) \<or>
         jlt (Math_abs (zAxisChange (features rep))) (Math_abs (minZAxisChange (config s))) \<or>
         \<not> isValidDuration (repStartTime s) (repTimestamp rep)
              (minRepDuration (config s)) (maxRepDuration (config s)) \<or>
         jlt (stabilityScore (features rep)) (minStabilityScore (config s)) \<or>
         jlt (depthScore (features rep)) (minDepthScore (config s))"
  shows "detect s dat =
           (s\<lparr>currentPhase := idle, repStartTime := Fin 0, descendStartTime := Fin 0,
              bottomTime := Fin 0, ascendStartTime := Fin 0, peakMagnitude := Fin 0,
              valleyMagnitude := PInf, peakZValue := Fin 0, valleyZValue := Fin 0\<rparr>, None)"
proof -
  let ?s1 = "updatePeakMagnitude (filteredMagnitude dat) s"
  have bad: "\<not> validateRep ?s1 rep"
    using assms(5) by (auto simp: validateRep_def)
  have "detect s dat = handleAscendingPhase ?s1 dat"
    using assms(1) by (rule detect_ascending)
  also have "\<dots> = (resetRepState (transitionToPhase idle ?s1), None)"
    using assms(2,3) bad
    by (simp add: handleAscendingPhase_def Let_def assms(4) [symmetric])
  finally show ?thesis
    by (simp add: reset_after_update)
qed

theorem rejected_rep_resets_witness:
  "currentPhase (ascendingExample strictConfig) = ascending \<and>
   \<not> jgt (jsub (timestamp (zSample 500 2 (29 / 16)))
              (ascendStartTime (ascendingExample strictConfig))) (Fin 5000) \<and>
   jge (jsub (filteredMagnitude (zSample 500 2 (29 / 16)))
          (valleyMagnitude (ascendingExample strictConfig)))
       (minDepthThreshold (config (ascendingExample strictConfig))) \<and>
   \<not> isValidDuration (repStartTime (ascendingExample strictConfig)) (Fin 500)
       (minRepDuration (config (ascendingExample strictConfig)))
       (maxRepDuration (config (ascendingExample strictConfig))) \<and>
   detect (ascendingExample strictConfig) (zSample 500 2 (29 / 16)) =
     ((SquatDetector_new strictConfig), None)"
proof -
  let ?s = "ascendingExample strictConfig" and ?d = "zSample 500 2 (29 / 16)"
  let ?rep = "createDetectedRep (updatePeakMagnitude (filteredMagnitude ?d) ?s) (timestamp ?d)"
  have h1: "currentPhase ?s = ascending"
    by (simp add: ascendingExample_def)
  have h2: "\<not> jgt (jsub (timestamp ?d) (ascendStartTime ?s)) (Fin 5000)"
    by (simp add: ascendingExample_def zSample_def)
  have h3: "jge (jsub (filteredMagnitude ?d) (valleyMagnitude ?s)) (minDepthThreshold (config ?s))"
    by (simp add: ascendingExample_def zSample_def strictConfig_def DEFAULT_SQUAT_CONFIG_def)
  have h4: "\<not> isValidDuration (repStartTime ?s) (Fin 500)
       (minRepDuration (config ?s)) (maxRepDuration (config ?s))"
    by (simp add: ascendingExample_def strictConfig_def DEFAULT_SQUAT_CONFIG_def
        isValidDuration_def)
  have ts: "repTimestamp ?rep = Fin 500"
    by (simp add: createDetectedRep_def zSample_def)
  have h5: "jlt (depth ?rep) (minDepthThreshold (config ?s)) \<or>
         jlt (Math_abs (zAxisChange (features ?rep))) (Math_abs (minZAxisChange (config ?s))) \<or>
         \<not> isValidDuration (repStartTime ?s) (repTimestamp ?rep)
              (minRepDuration (config ?s)) (maxRepDuration (config ?s)) \<or>
         jlt (stabilityScore (features ?rep)) (minStabilityScore (config ?s)) \<or>
         jlt (depthScore (features ?rep)) (minDepthScore (config ?s))"
    using h4 by (simp only: ts) blast
  have "detect ?s ?d = (SquatDetector_new strictConfig, None)"
    using rejected_rep_resets [OF h1 h2 h3 refl h5]
    by (simp add: ascendingExample_def SquatDetector_new_def)
  with h1 h2 h3 h4 show ?thesis by blast
qed

section \<open>Phase timeouts\<close>

text \<open>
  The times the timeouts are measured from: \<open>descendStartTime\<close> is the timestamp of the
  sample that took the detector from idle to descending and \<open>ascendStartTime\<close> that of the
  sample that took it from bottom to ascending, and neither changes while the phase lasts.
\<close>

lemma tracking_times [simp]:
  "descendStartTime (updateValleyMagnitude m s) = descendStartTime s"
  "ascendStartTime (updateValleyMagnitude m s) = ascendStartTime s"
  "descendStartTime (updateZAxisTracking zv s) = descendStartTime s"
  "ascendStartTime (updateZAxisTracking zv s) = ascendStartTime s"
  by (simp_all add: updateValleyMagnitude_def updateZAxisTracking_def Let_def)

lemma descending_entry_time:
  assumes "currentPhase s = idle" and "currentPhase (fst (detect s dat)) = descending"
  shows "descendStartTime (fst (detect s dat)) = timestamp dat"
proof -
  let ?s3 = "updateZAxisTracking (filteredZ dat) (updatePeakMagnitude (filteredMagnitude dat) s)"
  have d: "detect s dat = handleIdlePhase ?s3 dat"
    using assms(1) by (simp add: detect_def Let_def)
  have "currentPhase ?s3 = idle" using assms(1) by simp
  then show ?thesis
    using assms(2) unfolding d
    by (simp add: handleIdlePhase_def Let_def transitionToPhase_def updatePeakMagnitude_def
        resetRepState_def split: if_splits)
qed

lemma descending_keeps_entry_time:
  assumes "currentPhase s = descending" and "currentPhase (fst (detect s dat)) = descending"
  shows "descendStartTime (fst (detect s dat)) = descendStartTime s"
  using assms
  by (simp add: detect_descending handleDescendingPhase_def Let_def transitionToPhase_def
      resetRepState_def split: if_splits)

lemma ascending_entry_time:
  assumes "currentPhase s = bottom"
  shows "currentPhase (fst (detect s dat)) = ascending \<and>
         ascendStartTime (fst (detect s dat)) = timestamp dat"
  using assms
  by (simp add: detect_def Let_def handleBottomPhase_def transitionToPhase_def)

lemma ascending_keeps_entry_time:
  assumes "currentPhase s = ascending" and "currentPhase (fst (detect s dat)) = ascending"
  shows "ascendStartTime (fst (detect s dat)) = ascendStartTime s"
  using assms
  by (simp add: detect_ascending handleAscendingPhase_def Let_def transitionToPhase_def
      resetRepState_def split: if_splits)

text \<open>
  Claim C7. A sample whose timestamp is more than 5000 ms after the time recorded at entry
  into the descending phase, while the detector is descending, or after the time recorded at
  entry into the ascending phase, while it is ascending, sends the detector back to idle
  with the rep in progress reset; no rep is returned and the rep counter is unchanged. The
  timeout is tested before the exit trigger of the phase, so it holds whether or not the
  trigger is met.
\<close>

theorem phase_timeout_resets:
  assumes "(currentPhase s = descending \<and>
              jgt (jsub (timestamp dat) (descendStartTime s)) (Fin 5000)) \<or>
           (currentPhase s = ascending \<and>
              jgt (jsub (timestamp dat) (ascendStartTime s)) (Fin 5000))"
  shows "detect s dat =
           (s\<lparr>currentPhase := idle, repStartTime := Fin 0, descendStartTime := Fin 0,
              bottomTime := Fin 0, ascendStartTime := Fin 0, peakMagnitude := Fin 0,
              valleyMagnitude := PInf, peakZValue := Fin 0, valleyZValue := Fin 0\<rparr>, None)"
  using assms
proof
  assume a: "currentPhase s = descending \<and>
              jgt (jsub (timestamp dat) (descendStartTime s)) (Fin 5000)"
  then show ?thesis
    by (simp add: detect_descending handleDescendingPhase_def tracking_descendStartTime
        reset_after_tracking)
next
  assume a: "currentPhase s = ascending \<and>
              jgt (jsub (timestamp dat) (ascendStartTime s)) (Fin 5000)"
  then show ?thesis
    by (simp add: detect_ascending handleAscendingPhase_def reset_after_update)
qed

theorem phase_timeout_resets_witness:
  "jgt (jsub (timestamp (zSample 5200 0 1))
          (descendStartTime (descendingExample DEFAULT_SQUAT_CONFIG))) (Fin 5000) \<and>
   detect (descendingExample DEFAULT_SQUAT_CONFIG) (zSample 5200 0 1) =
     (SquatDetector_new DEFAULT_SQUAT_CONFIG, None) \<and>
   jgt (jsub (timestamp (zSample 5500 2 (13 / 8)))
          (ascendStartTime (ascendingExample DEFAULT_SQUAT_CONFIG))) (Fin 5000) \<and>
   detect (ascendingExample DEFAULT_SQUAT_CONFIG) (zSample 5500 2 (13 / 8)) =
     (SquatDetector_new DEFAULT_SQUAT_CONFIG, None)"
proof -
  let ?c = DEFAULT_SQUAT_CONFIG
  have d: "currentPhase (descendingExample ?c) = descending \<and>
      jgt (jsub (timestamp (zSample 5200 0 1)) (descendStartTime (descendingExample ?c))) (Fin 5000)"
    by (simp add: descendingExample_def zSample_def)
  have a: "currentPhase (ascendingExample ?c) = ascending \<and>
      jgt (jsub (timestamp (zSample 5500 2 (13 / 8))) (ascendStartTime (ascendingExample ?c))) (Fin 5000)"
    by (simp add: ascendingExample_def zSample_def)
  have "detect (descendingExample ?c) (zSample 5200 0 1) = (SquatDetector_new ?c, None)"
    using phase_timeout_resets [OF disjI1 [OF d]]
    by (simp add: descendingExample_def SquatDetector_new_def)
  moreover have "detect (ascendingExample ?c) (zSample 5500 2 (13 / 8)) = (SquatDetector_new ?c, None)"
    using phase_timeout_resets [OF disjI2 [OF a]]
    by (simp add: ascendingExample_def SquatDetector_new_def)
  ultimately show ?thesis using d a by blast
qed

section \<open>Rep numbering\<close>

lemma handler_counts:
  "handleIdlePhase s dat = (s', r) \<Longrightarrow> r = None \<and> repCount s' = repCount s"
  "handleDescendingPhase s dat = (s', r) \<Longrightarrow> r = None \<and> repCount s' = repCount s"
  "handleBottomPhase s dat = (s', r) \<Longrightarrow> r = None \<and> repCount s' = repCount s"
  by (auto simp: handleIdlePhase_def handleDescendingPhase_def handleBottomPhase_def Let_def
      resetRepState_def transitionToPhase_def updatePeakMagnitude_def split: if_splits)

lemma ascending_counts:
  "handleAscendingPhase s dat = (s', r) \<Longrightarrow>
     (r = None \<and> repCount s' = repCount s) \<or>
     (\<exists>rep. r = Some rep \<and> repNumber rep = repCount s + 1 \<and> isValid rep \<and>
            repCount s' = repCount s + 1)"
  by (auto simp: handleAscendingPhase_def Let_def createDetectedRep_def
      resetRepState_def transitionToPhase_def split: if_splits)

lemma tracking_repCount [simp]:
  "repCount (updateValleyMagnitude m s) = repCount s"
  "repCount (updateZAxisTracking zv s) = repCount s"
  by (simp_all add: updateValleyMagnitude_def updateZAxisTracking_def Let_def)

lemma detect_counts:
  assumes "detect s dat = (s', r)"
  shows "(r = None \<and> repCount s' = repCount s) \<or>
     (\<exists>rep. r = Some rep \<and> repNumber rep = repCount s + 1 \<and> isValid rep \<and>
            repCount s' = repCount s + 1)"
proof -
  let ?s1 = "updatePeakMagnitude (filteredMagnitude dat) s"
  let ?s2 = "if currentPhase ?s1 = descending \<or> currentPhase ?s1 = bottom
             then updateZAxisTracking (filteredZ dat)
                    (updateValleyMagnitude (filteredMagnitude dat) ?s1)
             else ?s1"
  let ?s3 = "if currentPhase ?s2 = idle then updateZAxisTracking (filteredZ dat) ?s2 else ?s2"
  have n: "repCount ?s3 = repCount s" by simp
  have d: "detect s dat =
      (case currentPhase ?s3 of
           idle \<Rightarrow> handleIdlePhase ?s3 dat
         | descending \<Rightarrow> handleDescendingPhase ?s3 dat
         | bottom \<Rightarrow> handleBottomPhase ?s3 dat
         | ascending \<Rightarrow> handleAscendingPhase ?s3 dat
         | completed \<Rightarrow> (transitionToPhase idle ?s3, None))"
    by (simp add: detect_def Let_def)
  show ?thesis
  proof (cases "currentPhase ?s3")
    case idle
    then show ?thesis using assms handler_counts(1) [of ?s3 dat s' r] unfolding d n by simp
  next
    case descending
    then show ?thesis using assms handler_counts(2) [of ?s3 dat s' r] unfolding d n by simp
  next
    case bottom
    then show ?thesis using assms handler_counts(3) [of ?s3 dat s' r] unfolding d n by simp
  next
    case ascending
    then show ?thesis using assms ascending_counts [of ?s3 dat s' r] unfolding d n by simp
  next
    case completed
    then show ?thesis using assms unfolding d using n by (auto simp: transitionToPhase_def)
  qed
qed

lemma upt_shift: "[m + 1 ..< m + 1 + Suc k] = (m + 1) # [m + 2 ..< m + 2 + k]"
proof -
  have e1: "[m + 1 ..< m + 1 + Suc k] = (m + 1) # [Suc (m + 1) ..< m + 1 + Suc k]"
    by (rule upt_conv_Cons) simp
  have e2: "Suc (m + 1) = m + 2" and e3: "m + 1 + Suc k = m + 2 + k"
    by simp_all
  show ?thesis
    by (metis e1 e2 e3)
qed

lemma detectAll_numbers:
  "map repNumber (snd (detectAll s samples)) =
     [repCount s + 1 ..< repCount s + 1 + length (snd (detectAll s samples))] \<and>
   repCount (fst (detectAll s samples)) = repCount s + length (snd (detectAll s samples)) \<and>
   (\<forall>rep \<in> set (snd (detectAll s samples)). isValid rep)"
proof (induction samples arbitrary: s)
  case Nil
  show ?case by simp
next
  case (Cons dat rest)
  obtain s' r where step: "detect s dat = (s', r)" by (cases "detect s dat")
  from detect_counts [OF step] show ?case
  proof
    assume "r = None \<and> repCount s' = repCount s"
    then show ?thesis using step Cons.IH [of s'] by simp
  next
    assume "\<exists>rep. r = Some rep \<and> repNumber rep = repCount s + 1 \<and> isValid rep \<and>
            repCount s' = repCount s + 1"
    then obtain rep where r: "r = Some rep" "repNumber rep = repCount s + 1" "isValid rep"
      "repCount s' = repCount s + 1" by blast
    obtain s'' reps where rest: "detectAll s' rest = (s'', reps)" by (cases "detectAll s' rest")
    have all: "detectAll s (dat # rest) = (s'', rep # reps)"
      using step r(1) rest by simp
    from Cons.IH [of s'] rest r(4)
    have ih: "map repNumber reps = [repCount s + 2 ..< repCount s + 2 + length reps]"
      "repCount s'' = repCount s + 1 + length reps" "\<forall>rep \<in> set reps. isValid rep"
      by simp_all
    have eq: "[repCount s + 1 ..< repCount s + 1 + length (rep # reps)] =
        (repCount s + 1) # [repCount s + 2 ..< repCount s + 2 + length reps]"
      using upt_shift [of "repCount s" "length reps"] by (simp del: upt_Suc)
    have c1: "map repNumber (rep # reps) =
        [repCount s + 1 ..< repCount s + 1 + length (rep # reps)]"
      unfolding eq using ih(1) r(2) by simp
    have c2: "repCount s'' = repCount s + length (rep # reps)"
      using ih(2) by simp
    have c3: "\<forall>x \<in> set (rep # reps). isValid x"
      using ih(3) r(3) by simp
    show ?thesis
      unfolding all fst_conv snd_conv using c1 c2 c3 by blast
  qed
qed

lemma detectAll_append:
  "detectAll s (xs @ ys) =
     (case detectAll s xs of
        (s', reps) \<Rightarrow> (case detectAll s' ys of (s'', reps') \<Rightarrow> (s'', reps @ reps')))"
  by (induction xs arbitrary: s) (auto split: prod.splits option.splits)

lemma second_squat_reaches_ascending:
  "detectAll
     \<lparr>config = DEFAULT_SQUAT_CONFIG, currentPhase = idle, repCount = Suc 0, repStartTime = Fin 0,
       descendStartTime = Fin 0, bottomTime = Fin 0, ascendStartTime = Fin 0,
       peakMagnitude = Fin 0, valleyMagnitude = PInf, peakZValue = Fin 0,
       valleyZValue = Fin 0\<rparr>
     (take 5 (drop 6 squatSamples)) =
    (\<lparr>config = DEFAULT_SQUAT_CONFIG, currentPhase = ascending, repCount = Suc 0, repStartTime = Fin 700,
       descendStartTime = Fin 700, bottomTime = Fin 900, ascendStartTime = Fin 1000,
       peakMagnitude = Fin (829 / 512), valleyMagnitude = Fin (61 / 128), peakZValue = Fin (829 / 512),
       valleyZValue = Fin 0\<rparr>, [])"
proof -
  have s7: "detect
     \<lparr>config = DEFAULT_SQUAT_CONFIG, currentPhase = idle, repCount = Suc 0, repStartTime = Fin 0,
       descendStartTime = Fin 0, bottomTime = Fin 0, ascendStartTime = Fin 0,
       peakMagnitude = Fin 0, valleyMagnitude = PInf, peakZValue = Fin 0,
       valleyZValue = Fin 0\<rparr>
     (zSample 600 2 (61 / 32)) =
    (\<lparr>config = DEFAULT_SQUAT_CONFIG, currentPhase = idle, repCount = Suc 0, repStartTime = Fin 0,
       descendStartTime = Fin 0, bottomTime = Fin 0, ascendStartTime = Fin 0,
       peakMagnitude = Fin (61 / 32), valleyMagnitude = PInf, peakZValue = Fin (61 / 32),
       valleyZValue = Fin 0\<rparr>, None)"
    by (simp add: step_defs)
  have s8: "detect
     \<lparr>config = DEFAULT_SQUAT_CONFIG, currentPhase = idle, repCount = Suc 0, repStartTime = Fin 0,
       descendStartTime = Fin 0, bottomTime = Fin 0, ascendStartTime = Fin 0,
       peakMagnitude = Fin (61 / 32), valleyMagnitude = PInf, peakZValue = Fin (61 / 32),
       valleyZValue = Fin 0\<rparr>
     (zSample 700 0 (61 / 64)) =
    (\<lparr>config = DEFAULT_SQUAT_CONFIG, currentPhase = descending, repCount = Suc 0, repStartTime = Fin 700,
       descendStartTime = Fin 700, bottomTime = Fin 0, ascendStartTime = Fin 0,
       peakMagnitude = Fin (61 / 64), valleyMagnitude = PInf, peakZValue = Fin 0,
       valleyZValue = Fin 0\<rparr>, None)"
    by (simp add: step_defs)
  have s9: "detect
     \<lparr>config = DEFAULT_SQUAT_CONFIG, currentPhase = descending, repCount = Suc 0, repStartTime = Fin 700,
       descendStartTime = Fin 700, bottomTime = Fin 0, ascendStartTime = Fin 0,
       peakMagnitude = Fin (61 / 64), valleyMagnitude = PInf, peakZValue = Fin 0,
       valleyZValue = Fin 0\<rparr>
     (zSample 800 0 (61 / 128)) =
    (\<lparr>config = DEFAULT_SQUAT_CONFIG, currentPhase = descending, repCount = Suc 0, repStartTime = Fin 700,
       descendStartTime = Fin 700, bottomTime = Fin 0, ascendStartTime = Fin 0,
       peakMagnitude = Fin (61 / 64), valleyMagnitude = Fin (61 / 128), peakZValue = Fin (61 / 128),
       valleyZValue = Fin 0\<rparr>, None)"
    by (simp add: step_defs)
  have s10: "detect
     \<lparr>config = DEFAULT_SQUAT_CONFIG, currentPhase = descending, repCount = Suc 0, repStartTime = Fin 700,
       descendStartTime = Fin 700, bottomTime = Fin 0, ascendStartTime = Fin 0,
       peakMagnitude = Fin (61 / 64), valleyMagnitude = Fin (61 / 128), peakZValue = Fin (61 / 128),
       valleyZValue = Fin 0\<rparr>
     (zSample 900 2 (317 / 256)) =
    (\<lparr>config = DEFAULT_SQUAT_CONFIG, currentPhase = bottom, repCount = Suc 0, repStartTime = Fin 700,
       descendStartTime = Fin 700, bottomTime = Fin 900, ascendStartTime = Fin 0,
       peakMagnitude = Fin (317 / 256), valleyMagnitude = Fin (61 / 128), peakZValue = Fin (317 / 256),
       valleyZValue = Fin 0\<rparr>, None)"
    by (simp add: step_defs)
  have s11: "detect
     \<lparr>config = DEFAULT_SQUAT_CONFIG, currentPhase = bottom, repCount = Suc 0, repStartTime = Fin 700,
       descendStartTime = Fin 700, bottomTime = Fin 900, ascendStartTime = Fin 0,
       peakMagnitude = Fin (317 / 256), valleyMagnitude = Fin (61 / 128), peakZValue = Fin (317 / 256),
       valleyZValue = Fin 0\<rparr>
     (zSample 1000 2 (829 / 512)) =
    (\<lparr>config = DEFAULT_SQUAT_CONFIG, currentPhase = ascending, repCount = Suc 0, repStartTime = Fin 700,
       descendStartTime = Fin 700, bottomTime = Fin 900, ascendStartTime = Fin 1000,
       peakMagnitude = Fin (829 / 512), valleyMagnitude = Fin (61 / 128), peakZValue = Fin (829 / 512),
       valleyZValue = Fin 0\<rparr>, None)"
    by (simp add: step_defs)
  show ?thesis
    by (simp add: squatSamples_eval s7 s8 s9 s10 s11)
qed

lemma second_squat_candidate_valid:
  "validateRep
     (updatePeakMagnitude (Fin (1853 / 1024))
        \<lparr>config = DEFAULT_SQUAT_CONFIG, currentPhase = ascending, repCount = Suc 0, repStartTime = Fin 700,
       descendStartTime = Fin 700, bottomTime = Fin 900, ascendStartTime = Fin 1000,
       peakMagnitude = Fin (829 / 512), valleyMagnitude = Fin (61 / 128), peakZValue = Fin (829 / 512),
       valleyZValue = Fin 0\<rparr>)
     (createDetectedRep
        (updatePeakMagnitude (Fin (1853 / 1024))
        \<lparr>config = DEFAULT_SQUAT_CONFIG, currentPhase = ascending, repCount = Suc 0, repStartTime = Fin 700,
       descendStartTime = Fin 700, bottomTime = Fin 900, ascendStartTime = Fin 1000,
       peakMagnitude = Fin (829 / 512), valleyMagnitude = Fin (61 / 128), peakZValue = Fin (829 / 512),
       valleyZValue = Fin 0\<rparr>) (Fin 1100))"
  by (simp add: validate_defs updatePeakMagnitude_def)

lemma second_squat_accepted:
  "\<exists>rep. detect
     \<lparr>config = DEFAULT_SQUAT_CONFIG, currentPhase = ascending, repCount = Suc 0, repStartTime = Fin 700,
       descendStartTime = Fin 700, bottomTime = Fin 900, ascendStartTime = Fin 1000,
       peakMagnitude = Fin (829 / 512), valleyMagnitude = Fin (61 / 128), peakZValue = Fin (829 / 512),
       valleyZValue = Fin 0\<rparr>
     (zSample 1100 2 (1853 / 1024)) =
    ((SquatDetector_new DEFAULT_SQUAT_CONFIG)\<lparr>repCount := 2\<rparr>, Some rep)"
proof -
  let ?s = "\<lparr>config = DEFAULT_SQUAT_CONFIG, currentPhase = ascending, repCount = Suc 0, repStartTime = Fin 700,
       descendStartTime = Fin 700, bottomTime = Fin 900, ascendStartTime = Fin 1000,
       peakMagnitude = Fin (829 / 512), valleyMagnitude = Fin (61 / 128), peakZValue = Fin (829 / 512),
       valleyZValue = Fin 0\<rparr>"
  have phase: "currentPhase ?s = ascending" by simp
  have fm: "filteredMagnitude (zSample 1100 2 (1853 / 1024)) = Fin (1853 / 1024)"
    "timestamp (zSample 1100 2 (1853 / 1024)) = Fin 1100"
    by (simp_all add: zSample_def)
  show ?thesis
    unfolding detect_ascending [OF phase] fm handleAscendingPhase_def
    using second_squat_candidate_valid
    by (simp add: fm DEFAULT_SQUAT_CONFIG_def SquatDetector_new_def
        resetRepState_def transitionToPhase_def updatePeakMagnitude_def)
qed

lemma two_squats_two_reps:
  "length (snd (detectAll (SquatDetector_new DEFAULT_SQUAT_CONFIG) squatSamples)) = 2"
proof -
  have split: "squatSamples = take 2 squatSamples @ take 3 (drop 2 squatSamples) @
      [zSample 500 2 (29 / 16)] @ take 5 (drop 6 squatSamples) @ [zSample 1100 2 (1853 / 1024)]"
    by (simp add: squatSamples_eval)
  obtain rep where second: "detect
     \<lparr>config = DEFAULT_SQUAT_CONFIG, currentPhase = ascending, repCount = Suc 0, repStartTime = Fin 700,
       descendStartTime = Fin 700, bottomTime = Fin 900, ascendStartTime = Fin 1000,
       peakMagnitude = Fin (829 / 512), valleyMagnitude = Fin (61 / 128), peakZValue = Fin (829 / 512),
       valleyZValue = Fin 0\<rparr>
     (zSample 1100 2 (1853 / 1024)) =
    ((SquatDetector_new DEFAULT_SQUAT_CONFIG)\<lparr>repCount := 2\<rparr>, Some rep)"
    using second_squat_accepted by blast
  have fresh1: "(SquatDetector_new DEFAULT_SQUAT_CONFIG)\<lparr>repCount := Suc 0\<rparr> =
     \<lparr>config = DEFAULT_SQUAT_CONFIG, currentPhase = idle, repCount = Suc 0, repStartTime = Fin 0,
       descendStartTime = Fin 0, bottomTime = Fin 0, ascendStartTime = Fin 0,
       peakMagnitude = Fin 0, valleyMagnitude = PInf, peakZValue = Fin 0,
       valleyZValue = Fin 0\<rparr>"
    by (simp add: SquatDetector_new_def)
  show ?thesis
    by (subst split)
      (simp add: detectAll_append squat_reaches_descending squat_reaches_ascending
        squat_accepted fresh1 second_squat_reaches_ascending second)
qed

text \<open>
  Claim C2. Whatever samples a detector is fed after \<open>reset\<close> (or after construction), the
  reps it returns carry the numbers 1, 2, ..., N in the order of emission, N being the
  number of reps returned; each of them is marked valid; the counter then stands at N; and
  \<open>reset\<close> puts the counter back to 0.
\<close>

theorem rep_numbers_count_up:
  "map repNumber (snd (detectAll (reset s) samples)) =
     [1 ..< Suc (length (snd (detectAll (reset s) samples)))] \<and>
   map repNumber (snd (detectAll (SquatDetector_new cfg) samples)) =
     [1 ..< Suc (length (snd (detectAll (SquatDetector_new cfg) samples)))] \<and>
   list_all isValid (snd (detectAll (reset s) samples)) \<and>
   repCount (fst (detectAll (reset s) samples)) = length (snd (detectAll (reset s) samples)) \<and>
   repCount (reset (fst (detectAll (reset s) samples))) = 0"
  using detectAll_numbers [of "reset s" samples]
    detectAll_numbers [of "SquatDetector_new cfg" samples]
  by (simp add: reset_def resetRepState_def SquatDetector_new_def list_all_iff)

theorem rep_numbers_count_up_witness:
  "map repNumber (snd (detectAll (SquatDetector_new DEFAULT_SQUAT_CONFIG) squatSamples)) = [1, 2]"
  using rep_numbers_count_up
    [of "SquatDetector_new DEFAULT_SQUAT_CONFIG" squatSamples DEFAULT_SQUAT_CONFIG]
  by (simp add: two_squats_two_reps upt_conv_Cons)

section \<open>Depth at completion\<close>

lemma Math_sqrt_not_NInf: "Math_sqrt a \<noteq> NInf"
  by (cases a) auto

lemma process_magnitude_not_NInf:
  "filteredMagnitude (snd (SignalProcessor_process p raw)) \<noteq> NInf"
  by (simp add: SignalProcessor_process_def calculateMagnitude_def Math_sqrt_not_NInf
      split: prod.splits)

lemma processAll_outputs:
  "d \<in> set (snd (SignalProcessor_processAll p raws)) \<Longrightarrow>
   \<exists>p' raw. d = snd (SignalProcessor_process p' raw)"
proof (induction raws arbitrary: p)
  case Nil
  then show ?case by simp
next
  case (Cons raw rest)
  obtain p1 d1 where one: "SignalProcessor_process p raw = (p1, d1)"
    by (cases "SignalProcessor_process p raw")
  from Cons.prems one have "d = d1 \<or> d \<in> set (snd (SignalProcessor_processAll p1 rest))"
    by (auto split: prod.splits)
  then show ?case
  proof
    assume "d = d1"
    then have "d = snd (SignalProcessor_process p raw)" using one by simp
    then show ?thesis by blast
  next
    assume "d \<in> set (snd (SignalProcessor_processAll p1 rest))"
    then show ?thesis by (rule Cons.IH)
  qed
qed

lemma jgt_not_NaN: "jgt a b \<Longrightarrow> a \<noteq> NaN \<and> b \<noteq> NaN"
  by (cases a; cases b) (auto simp: jgt_def)

lemma jlt_not_NaN: "jlt a b \<Longrightarrow> a \<noteq> NaN \<and> b \<noteq> NaN"
  by (cases a; cases b) auto

lemma rise_above_infinity: "jgt (jsub m PInf) t \<Longrightarrow> False"
  by (cases m; cases t) (auto simp: jgt_def jsub_def)

lemma updatePeakMagnitude_not_NaN:
  "peakMagnitude s \<noteq> NaN \<Longrightarrow> peakMagnitude (updatePeakMagnitude m s) \<noteq> NaN"
  using jgt_not_NaN [of m "peakMagnitude s"] by (auto simp: updatePeakMagnitude_def)

lemma updateValleyMagnitude_valley:
  "valleyMagnitude s \<noteq> NaN \<Longrightarrow> valleyMagnitude s \<noteq> NInf \<Longrightarrow> m \<noteq> NInf \<Longrightarrow>
   valleyMagnitude (updateValleyMagnitude m s) \<noteq> NaN \<and>
   valleyMagnitude (updateValleyMagnitude m s) \<noteq> NInf \<and>
   (valleyMagnitude s \<noteq> PInf \<longrightarrow> valleyMagnitude (updateValleyMagnitude m s) \<noteq> PInf)"
  using jlt_not_NaN [of m "valleyMagnitude s"]
  by (cases m; cases "valleyMagnitude s") (auto simp: updateValleyMagnitude_def)

lemma tracking_ok_reset: "tracking_ok (resetRepState (transitionToPhase idle s))"
  by (simp add: tracking_ok_def resetRepState_def transitionToPhase_def)

lemma tracking_ok_idle:
  assumes "tracking_ok s" and "currentPhase s = idle"
  shows "tracking_ok (fst (handleIdlePhase s dat))"
  using assms jgt_not_NaN [of "filteredMagnitude dat" "Fin 0"]
  by (auto simp: handleIdlePhase_def Let_def tracking_ok_def resetRepState_def
      transitionToPhase_def updatePeakMagnitude_def)

lemma tracking_ok_descending:
  assumes "tracking_ok s" and "currentPhase s = descending"
  shows "tracking_ok (fst (handleDescendingPhase s dat))"
  using assms rise_above_infinity [of "filteredMagnitude dat" MAGNITUDE_RISE_THRESHOLD]
  by (auto simp: handleDescendingPhase_def Let_def tracking_ok_def resetRepState_def
      transitionToPhase_def)

lemma tracking_ok_bottom:
  assumes "tracking_ok s" and "currentPhase s = bottom"
  shows "tracking_ok (fst (handleBottomPhase s dat))"
  using assms by (auto simp: handleBottomPhase_def tracking_ok_def transitionToPhase_def)

lemma tracking_ok_ascending:
  assumes "tracking_ok s" and "currentPhase s = ascending"
  shows "tracking_ok (fst (handleAscendingPhase s dat))"
  using assms
  by (auto simp: handleAscendingPhase_def Let_def tracking_ok_def resetRepState_def
      transitionToPhase_def)

lemma tracking_ok_detect:
  assumes ok: "tracking_ok s" and m: "filteredMagnitude dat \<noteq> NInf"
  shows "tracking_ok (fst (detect s dat))"
proof -
  let ?m = "filteredMagnitude dat"
  let ?s1 = "updatePeakMagnitude ?m s"
  have ok1: "tracking_ok ?s1"
    using ok updatePeakMagnitude_not_NaN [of s ?m] by (simp add: tracking_ok_def)
  show ?thesis
  proof (cases "currentPhase s")
    case idle
    let ?s3 = "updateZAxisTracking (filteredZ dat) ?s1"
    have "tracking_ok ?s3" "currentPhase ?s3 = idle"
      using ok1 idle by (simp_all add: tracking_ok_def)
    then have "tracking_ok (fst (handleIdlePhase ?s3 dat))" by (rule tracking_ok_idle)
    then show ?thesis using idle by (simp add: detect_def Let_def)
  next
    case descending
    let ?s2 = "updateZAxisTracking (filteredZ dat) (updateValleyMagnitude ?m ?s1)"
    have "tracking_ok ?s2" "currentPhase ?s2 = descending"
      using ok1 descending m updateValleyMagnitude_valley [of ?s1 ?m]
      by (simp_all add: tracking_ok_def)
    then have "tracking_ok (fst (handleDescendingPhase ?s2 dat))"
      by (rule tracking_ok_descending)
    then show ?thesis using descending by (simp add: detect_def Let_def)
  next
    case bottom
    let ?s2 = "updateZAxisTracking (filteredZ dat) (updateValleyMagnitude ?m ?s1)"
    have "tracking_ok ?s2" "currentPhase ?s2 = bottom"
      using ok1 bottom m updateValleyMagnitude_valley [of ?s1 ?m]
      by (simp_all add: tracking_ok_def)
    then have "tracking_ok (fst (handleBottomPhase ?s2 dat))"
      by (rule tracking_ok_bottom)
    then show ?thesis using bottom by (simp add: detect_def Let_def)
  next
    case ascending
    have "tracking_ok ?s1" "currentPhase ?s1 = ascending"
      using ok1 ascending by simp_all
    then have "tracking_ok (fst (handleAscendingPhase ?s1 dat))"
      by (rule tracking_ok_ascending)
    then show ?thesis using ascending by (simp add: detect_def Let_def)
  next
    case completed
    then show ?thesis using ok1
      by (simp add: detect_def Let_def tracking_ok_def transitionToPhase_def)
  qed
qed

lemma runCalls_Detect: "runCalls s (map Detect samples) = detectAll s samples"
  by (induction samples arbitrary: s) (auto split: prod.splits option.splits)

lemma tracking_ok_setConfig: "tracking_ok s \<Longrightarrow> tracking_ok (setConfig patch s)"
  by (simp add: tracking_ok_def setConfig_def)

lemma tracking_ok_reset_all: "tracking_ok (reset s)"
  by (simp add: tracking_ok_def reset_def resetRepState_def)

lemma tracking_ok_runCalls:
  "tracking_ok s \<Longrightarrow> \<forall>d. Detect d \<in> set cs \<longrightarrow> filteredMagnitude d \<noteq> NInf \<Longrightarrow>
   tracking_ok (fst (runCalls s cs))"
proof (induction cs arbitrary: s)
  case Nil
  then show ?case by simp
next
  case (Cons c rest)
  have rest: "\<forall>d. Detect d \<in> set rest \<longrightarrow> filteredMagnitude d \<noteq> NInf"
    using Cons.prems(2) by simp
  show ?case
  proof (cases c)
    case (Detect dat)
    have "tracking_ok (fst (detect s dat))"
      using Cons.prems Detect by (simp add: tracking_ok_detect)
    then have "tracking_ok (fst (runCalls (fst (detect s dat)) rest))"
      using rest by (rule Cons.IH)
    then show ?thesis
      using Detect by (cases "detect s dat") (auto split: option.splits prod.splits)
  next
    case (SetConfig patch)
    have "tracking_ok (setConfig patch s)"
      using Cons.prems(1) by (rule tracking_ok_setConfig)
    then have "tracking_ok (fst (runCalls (setConfig patch s) rest))"
      using rest by (rule Cons.IH)
    then show ?thesis using SetConfig by simp
  next
    case Reset
    have "tracking_ok (fst (runCalls (reset s) rest))"
      using tracking_ok_reset_all rest by (rule Cons.IH)
    then show ?thesis using Reset by simp
  qed
qed

lemma recovery_bounds_depth:
  assumes "peakMagnitude s \<noteq> NaN" and "isFinite (valleyMagnitude s)"
    and "jge (jsub m (valleyMagnitude s)) t"
  shows "jge (jsub (peakMagnitude (updatePeakMagnitude m s)) (valleyMagnitude s)) t"
proof -
  obtain v where v: "valleyMagnitude s = Fin v"
    using assms(2) by (cases "valleyMagnitude s") simp_all
  show ?thesis
    using assms(1,3) unfolding v updatePeakMagnitude_def
    by (cases "peakMagnitude s"; cases m; cases t) (auto simp: jge_def jsub_def jgt_def)
qed

lemma jge_not_jlt: "jge a b \<Longrightarrow> \<not> jlt a b"
  by (cases a; cases b) (auto simp: jge_def)

text \<open>
  Claim C10. Take a detector as constructed and drive it through any calls of \<open>detect\<close>,
  \<open>setConfig\<close> and \<open>reset\<close>, the samples being samples that the signal processor
  produced, as all samples of the engine are. If it is then in the ascending phase and a
  sample arrives whose recovery \<open>filteredMagnitude - valleyMagnitude\<close> reaches
  \<open>minDepthThreshold\<close>, then the valley is a finite number, the depth of the candidate rep
  is the running peak, already updated with this sample, minus the valley, and that depth
  reaches \<open>minDepthThreshold\<close> too: the first check of \<open>validateRep\<close> does not fail.
\<close>

theorem completion_depth_reaches_threshold:
  assumes "\<forall>d. Detect d \<in> set cs \<longrightarrow> (\<exists>p raw. d = snd (SignalProcessor_process p raw))"
    and "s = fst (runCalls (SquatDetector_new cfg) cs)"
    and "currentPhase s = ascending"
    and "jge (jsub (filteredMagnitude dat) (valleyMagnitude s)) (minDepthThreshold (config s))"
    and "rep = createDetectedRep (updatePeakMagnitude (filteredMagnitude dat) s) (timestamp dat)"
  shows "isFinite (valleyMagnitude s) \<and>
         depth rep = jsub (peakMagnitude (updatePeakMagnitude (filteredMagnitude dat) s))
                       (valleyMagnitude s) \<and>
         jge (depth rep) (minDepthThreshold (config s)) \<and>
         \<not> jlt (depth rep) (minDepthThreshold (config s))"
proof -
  have start: "tracking_ok (SquatDetector_new cfg)"
    by (simp add: tracking_ok_def SquatDetector_new_def)
  have "\<forall>d. Detect d \<in> set cs \<longrightarrow> filteredMagnitude d \<noteq> NInf"
    using assms(1) process_magnitude_not_NInf by auto
  then have ok: "tracking_ok s"
    unfolding assms(2) using start by (intro tracking_ok_runCalls)
  have fin: "isFinite (valleyMagnitude s)"
    using ok assms(3) by (cases "valleyMagnitude s") (simp_all add: tracking_ok_def)
  have p: "peakMagnitude s \<noteq> NaN"
    using ok by (simp add: tracking_ok_def)
  have d: "depth rep = jsub (peakMagnitude (updatePeakMagnitude (filteredMagnitude dat) s))
                       (valleyMagnitude s)"
    using fin by (simp add: assms(5) createDetectedRep_def calculateMagnitudeChange_def)
  have ge: "jge (depth rep) (minDepthThreshold (config s))"
    unfolding d using p fin assms(4) by (rule recovery_bounds_depth)
  show ?thesis
    using fin d ge jge_not_jlt [OF ge] by blast
qed

theorem completion_depth_reaches_threshold_witness:
  "currentPhase (fst (runCalls (SquatDetector_new DEFAULT_SQUAT_CONFIG)
                        (map Detect (take 5 squatSamples)))) = ascending \<and>
   jge (jsub (filteredMagnitude (zSample 500 2 (29 / 16)))
          (valleyMagnitude (fst (runCalls (SquatDetector_new DEFAULT_SQUAT_CONFIG)
                                   (map Detect (take 5 squatSamples))))))
       (minDepthThreshold (config (fst (runCalls (SquatDetector_new DEFAULT_SQUAT_CONFIG)
                                          (map Detect (take 5 squatSamples)))))) \<and>
   depth (createDetectedRep
            (updatePeakMagnitude (filteredMagnitude (zSample 500 2 (29 / 16)))
               (fst (runCalls (SquatDetector_new DEFAULT_SQUAT_CONFIG)
                       (map Detect (take 5 squatSamples)))))
            (timestamp (zSample 500 2 (29 / 16)))) = Fin (21 / 16) \<and>
   jge (depth (createDetectedRep
            (updatePeakMagnitude (filteredMagnitude (zSample 500 2 (29 / 16)))
               (fst (runCalls (SquatDetector_new DEFAULT_SQUAT_CONFIG)
                       (map Detect (take 5 squatSamples)))))
            (timestamp (zSample 500 2 (29 / 16)))))
       (minDepthThreshold (config (fst (runCalls (SquatDetector_new DEFAULT_SQUAT_CONFIG)
                                          (map Detect (take 5 squatSamples))))))"
proof -
  let ?c = DEFAULT_SQUAT_CONFIG
  let ?cs = "map Detect (take 5 squatSamples)"
  let ?s = "fst (runCalls (SquatDetector_new ?c) ?cs)"
  let ?d = "zSample 500 2 (29 / 16)"
  let ?rep = "createDetectedRep (updatePeakMagnitude (filteredMagnitude ?d) ?s) (timestamp ?d)"
  have five: "take 5 squatSamples = take 2 squatSamples @ take 3 (drop 2 squatSamples)"
    by (simp add: squatSamples_eval)
  have "fst (detectAll (SquatDetector_new ?c) (take 5 squatSamples)) = ascendingExample ?c"
    by (subst five)
      (simp add: detectAll_append squat_reaches_descending squat_reaches_ascending)
  then have s: "?s = ascendingExample ?c"
    by (simp only: runCalls_Detect)
  have h1: "\<forall>d. Detect d \<in> set ?cs \<longrightarrow> (\<exists>p raw. d = snd (SignalProcessor_process p raw))"
  proof (intro allI impI)
    fix d assume "Detect d \<in> set ?cs"
    then have "d \<in> set (take 5 squatSamples)" by auto
    then have "d \<in> set squatSamples" by (rule in_set_takeD)
    then show "\<exists>p raw. d = snd (SignalProcessor_process p raw)"
      unfolding squatSamples_def by (rule processAll_outputs)
  qed
  have h4: "currentPhase ?s = ascending"
    unfolding s by (simp add: ascendingExample_def)
  have h5: "jge (jsub (filteredMagnitude ?d) (valleyMagnitude ?s)) (minDepthThreshold (config ?s))"
    unfolding s by (simp add: ascendingExample_def zSample_def DEFAULT_SQUAT_CONFIG_def)
  have val: "depth ?rep = Fin (21 / 16)"
    unfolding s
    by (simp add: createDetectedRep_def calculateMagnitudeChange_def updatePeakMagnitude_def
        ascendingExample_def zSample_def)
  have "jge (depth ?rep) (minDepthThreshold (config ?s))"
    using completion_depth_reaches_threshold [OF h1 refl h4 h5 refl]
    by blast
  with h4 h5 val show ?thesis by blast
qed

section \<open>Scoring\<close>




lemma score_spec_example:
  "score \<lparr>weights = DEFAULT_WEIGHTS\<rparr>
     \<lparr>descendDuration = Fin 0, ascendDuration = Fin 0, totalDuration = Fin 0,
       depthScore = Fin 150, stabilityScore = NaN, rangeScore = Fin (- 10),
       featPeakMagnitude = Fin 0, featValleyMagnitude = Fin 0, magnitudeChange = Fin 0,
       zAxisChange = Fin 0\<rparr> =
   \<lparr>overall = Fin 50, scoreDepth = Fin 100, scoreStability = Fin 0, scoreConsistency = Fin 0,
     scoreTechnique = good\<rparr>"
  by (simp add: score_def Let_def sanitizeScore_def Math_max_def Math_min_def
      calculateWeightedScore_def DEFAULT_WEIGHTS_def getScoreTechnique_def)



section \<open>Peak prominence\<close>

lemma findPeaks_short: "length dat < 3 \<Longrightarrow> findPeaks cfg dat useFiltered = Inr []"
  by (simp add: findPeaks_def)

lemma plateau_signal:
  "map filteredMagnitude plateauWindow =
     [Fin 0, Fin 1, Fin (1 / 2), Fin (1 / 2), Fin (1 / 2), Fin (1 / 2), Fin (1 / 2),
      Fin (1 / 2), Fin (1 / 2), Fin (1 / 2), Fin (1 / 2), Fin 0]"
  by (simp add: plateauWindow_def zSample_def)

lemma plateau_code_prominence:
  "calculateProminence (map filteredMagnitude plateauWindow) 1 False = Fin (3 / 4)"
  unfolding plateau_signal
  by (simp add: calculateProminence_def slice_def Math_min_all_def Math_min_def Let_def)

lemma plateau_spec_prominence:
  "prominence_spec (map filteredMagnitude plateauWindow) 1 = Fin 1"
  unfolding plateau_signal
  by (simp add: prominence_spec_def slice_def Math_min_all_def Math_min_def Let_def)

lemma plateau_scan:
  "scanPeaks \<lparr>prominence = Fin (5 / 100), minDistance = Fin 15\<rparr> plateauWindow
     (map filteredMagnitude plateauWindow) [1, 2, 3, 4, 5, 6, 7, 8, 9, 10] =
   [\<lparr>pkValue = Fin 1, pkIndex = 1, pkTimestamp = Fin 100, pkProminence = Fin (3 / 4)\<rparr>]"
proof -
  have ts: "timestamp (plateauWindow ! 1) = Fin 100"
    by (simp add: plateauWindow_def zSample_def)
  show ?thesis
    using plateau_code_prominence ts unfolding plateau_signal
    by (simp add: Let_def)
qed

text \<open>
  Claim C9 asks for the minima of the 10 samples on each side of the peak. The scan of
  \<open>calculateProminence\<close> takes 10 samples on the left, \<open>slice(index - 10, index)\<close>, but only 9
  on the right, \<open>slice(index + 1, index + 10)\<close>, although its comment says \<open>Look 10 samples
  in each direction\<close>. On \<open>plateauWindow\<close> the drop to 0 ten samples after the peak is
  missed: \<open>findPeaks\<close> reports the peak with prominence 3/4, where the prominence over 10
  samples on each side is 1.
\<close>

theorem prominence_right_window_short:
  "findPeaks \<lparr>prominence = Fin (5 / 100), minDistance = Fin 15\<rparr> plateauWindow True =
     Inr [\<lparr>pkValue = Fin 1, pkIndex = 1, pkTimestamp = Fin 100, pkProminence = Fin (3 / 4)\<rparr>] \<and>
   prominence_spec (map filteredMagnitude plateauWindow) 1 = Fin 1"
proof -
  have len: "length plateauWindow = 12"
    by (simp add: plateauWindow_def)
  have idx: "[1 ..< length (map filteredMagnitude plateauWindow) - 1] =
      [1, 2, 3, 4, 5, 6, 7, 8, 9, 10]"
    by (simp add: len upt_rec)
  have "findPeaks \<lparr>prominence = Fin (5 / 100), minDistance = Fin 15\<rparr> plateauWindow True =
     Inr [\<lparr>pkValue = Fin 1, pkIndex = 1, pkTimestamp = Fin 100, pkProminence = Fin (3 / 4)\<rparr>]"
    unfolding findPeaks_def Let_def if_True
    by (simp only: idx plateau_scan) (simp add: len filterByDistance_def)
  then show ?thesis
    using plateau_spec_prominence by simp
qed

section \<open>Stage errors and the error counter\<close>

lemma addToRecentData_fields [simp]:
  "detector (addToRecentData e d) = detector e"
  "scorer (addToRecentData e d) = scorer e"
  "callbacks (addToRecentData e d) = callbacks e"
  "consecutivePipelineErrors (addToRecentData e d) = consecutivePipelineErrors e"
  "state (addToRecentData e d) = state e"
  "calls (addToRecentData e d) = calls e"
  by (simp_all add: addToRecentData_def Let_def)

lemma processor_error_counted:
  assumes "state e = active" and "consecutivePipelineErrors e < 10"
    and "stageProcess st (signalProcessor e) rawData = (p, Inl err)"
  shows "handleSensorData st e rawData =
           (e\<lparr>signalProcessor := p,
              consecutivePipelineErrors := consecutivePipelineErrors e + 1\<rparr>, Inr ())"
  using assms by (simp add: handleSensorData_def MAX_CONSECUTIVE_ERRORS_def)

lemma detector_error_counted:
  assumes "state e = active" and "consecutivePipelineErrors e < 10"
    and "stageProcess st (signalProcessor e) rawData = (p, Inr processed)"
    and "stageDetect st (detector e) processed = (d, Inl err)"
  shows "handleSensorData st e rawData =
           ((addToRecentData (e\<lparr>signalProcessor := p\<rparr>) processed)
              \<lparr>detector := d,
                consecutivePipelineErrors := consecutivePipelineErrors e + 1\<rparr>, Inr ())"
  using assms by (simp add: handleSensorData_def MAX_CONSECUTIVE_ERRORS_def Let_def)

lemma scoring_error_not_counted:
  assumes "state e = active" and "consecutivePipelineErrors e < 10"
    and "stageProcess st (signalProcessor e) rawData = (p, Inr processed)"
    and "stageDetect st (detector e) processed = (d, Inr (Some rep))"
    and "isValid rep"
    and "stageScore st (scorer e) (features rep) = Inl err"
  shows "handleSensorData st e rawData =
           ((addToRecentData (e\<lparr>signalProcessor := p\<rparr>) processed)
              \<lparr>detector := d, consecutivePipelineErrors := 0\<rparr>, Inr ())"
  using assms
  by (simp add: handleSensorData_def MAX_CONSECUTIVE_ERRORS_def Let_def scoreAndNotify_def)

lemma clean_sample_resets_counter:
  assumes "state e = active" and "consecutivePipelineErrors e < 10"
    and "stageProcess st (signalProcessor e) rawData = (p, Inr processed)"
    and "stageDetect st (detector e) processed = (d, Inr None)"
  shows "handleSensorData st e rawData =
           ((addToRecentData (e\<lparr>signalProcessor := p\<rparr>) processed)
              \<lparr>detector := d, consecutivePipelineErrors := 0\<rparr>, Inr ())"
  using assms by (simp add: handleSensorData_def MAX_CONSECUTIVE_ERRORS_def Let_def)

lemma warm_process:
  "SignalProcessor_process (signalProcessor ascendingEngine) (rawSample 500 2) =
     (\<lparr>lowPassFilter = \<lparr>alpha = Fin (1 / 2), previousX = Fin 0, previousY = Fin 0,
                         previousZ = Fin (29 / 16), isInitialized = True\<rparr>\<rparr>,
      zSample 500 2 (29 / 16))"
  by (simp add: ascendingEngine_def exampleEngine_def rawSample_def zSample_def
      SignalProcessor_process_def LowPassFilter_filter_def Let_def calculateMagnitude_z)

lemma deliver_append: "deliver st e (xs @ ys) = deliver st (deliver st e xs) ys"
  by (induction xs arbitrary: e) simp_all

lemma quiet_samples_pass:
  assumes "stageProcess st = stageProcess sourceStages"
    and "stageDetect st = stageDetect sourceStages"
  shows "state e = active \<Longrightarrow> consecutivePipelineErrors e = 0 \<Longrightarrow>
     SignalProcessor_processAll (signalProcessor e) raws = (p, ds) \<Longrightarrow>
     detectAll (detector e) ds = (s, []) \<Longrightarrow>
     length (recentData e) + length raws \<le> MAX_RECENT_DATA \<Longrightarrow>
     deliver st e raws =
       e\<lparr>signalProcessor := p, detector := s, recentData := recentData e @ ds\<rparr>"
proof (induction raws arbitrary: e ds)
  case Nil
  then show ?case by simp
next
  case (Cons raw rest)
  obtain p1 d1 where one: "SignalProcessor_process (signalProcessor e) raw = (p1, d1)"
    by (cases "SignalProcessor_process (signalProcessor e) raw")
  obtain ds1 where ds: "ds = d1 # ds1"
    and rest: "SignalProcessor_processAll p1 rest = (p, ds1)"
    using Cons.prems(3) one by (auto split: prod.splits)
  obtain s1 where det: "detect (detector e) d1 = (s1, None)"
    and detrest: "detectAll s1 ds1 = (s, [])"
    using Cons.prems(4) unfolding ds
    by (cases "detect (detector e) d1") (auto split: option.splits prod.splits)
  let ?e1 = "e\<lparr>signalProcessor := p1, detector := s1, recentData := recentData e @ [d1]\<rparr>"
  have room: "\<not> length (recentData e @ [d1]) > MAX_RECENT_DATA"
    using Cons.prems(5) by simp
  have step: "handleSensorData st e raw = (?e1, Inr ())"
    using Cons.prems(1,2) one det room
    by (simp add: handleSensorData_def assms sourceStages_def MAX_CONSECUTIVE_ERRORS_def
        addToRecentData_def Let_def)
  have "deliver st ?e1 rest =
      ?e1\<lparr>signalProcessor := p, detector := s, recentData := recentData ?e1 @ ds1\<rparr>"
    using Cons.prems(1,2,5) rest detrest by (intro Cons.IH) simp_all
  then show ?case
    using step by (simp add: ds)
qed

lemma squat_process_five:
  "SignalProcessor_processAll coldProcessor (take 5 squatStream) =
     (\<lparr>lowPassFilter = \<lparr>alpha = Fin (1 / 2), previousX = Fin 0, previousY = Fin 0,
                         previousZ = Fin (13 / 8), isInitialized = True\<rparr>\<rparr>,
      take 5 squatSamples)"
  unfolding squatSamples_eval
  by (simp add: squatStream_def rawSample_def coldProcessor_def SignalProcessor_process_def
      LowPassFilter_filter_def Let_def calculateMagnitude_z zSample_def)

lemma squat_detect_five:
  "detectAll (SquatDetector_new cfg) (take 5 squatSamples) = (ascendingExample cfg, [])"
proof -
  have five: "take 5 squatSamples = take 2 squatSamples @ take 3 (drop 2 squatSamples)"
    by (simp add: squatSamples_eval)
  show ?thesis
    by (subst five)
      (simp add: detectAll_append squat_reaches_descending squat_reaches_ascending)
qed

lemma ascendingEngine_reached:
  "deliver faultyScorerStages exampleEngine (take 5 squatStream) = ascendingEngine"
  "deliver sourceStages exampleEngine (take 5 squatStream) = ascendingEngine"
proof -
  have a: "state exampleEngine = active" "consecutivePipelineErrors exampleEngine = 0"
    "signalProcessor exampleEngine = coldProcessor"
    "detector exampleEngine = SquatDetector_new DEFAULT_SQUAT_CONFIG"
    "recentData exampleEngine = []"
    by (simp_all add: exampleEngine_def)
  have len: "length (recentData exampleEngine) + length (take 5 squatStream) \<le> MAX_RECENT_DATA"
    by (simp add: a squatStream_def MAX_RECENT_DATA_def)
  have p: "SignalProcessor_processAll (signalProcessor exampleEngine) (take 5 squatStream) =
     (\<lparr>lowPassFilter = \<lparr>alpha = Fin (1 / 2), previousX = Fin 0, previousY = Fin 0,
                         previousZ = Fin (13 / 8), isInitialized = True\<rparr>\<rparr>,
      take 5 squatSamples)"
    unfolding a by (rule squat_process_five)
  have d: "detectAll (detector exampleEngine) (take 5 squatSamples) =
      (ascendingExample DEFAULT_SQUAT_CONFIG, [])"
    unfolding a by (rule squat_detect_five)
  show "deliver faultyScorerStages exampleEngine (take 5 squatStream) = ascendingEngine"
    using quiet_samples_pass [of faultyScorerStages, OF _ _ a(1,2) p d len]
    by (simp add: faultyScorerStages_def ascendingEngine_def a)
  show "deliver sourceStages exampleEngine (take 5 squatStream) = ascendingEngine"
    using quiet_samples_pass [of sourceStages, OF _ _ a(1,2) p d len]
    by (simp add: ascendingEngine_def a)
qed

text \<open>
  Claim C3 holds for a throw of the processor and for a throw of the detector
  (\<open>processor_error_counted\<close>, \<open>detector_error_counted\<close>): the handler returns and the
  counter is one more than before. It fails for a throw of the scorer. The handler of that
  throw increments the counter, but the statement after it, \<open>Reset error counter on
  successful pipeline run\<close>, is reached all the same and sets the counter to 0. With a
  scorer that throws, the first five samples of \<open>squatStream\<close> take \<open>exampleEngine\<close> to
  \<open>ascendingEngine\<close>, with no error counted; the sixth, \<open>rawSample 500 2\<close>, passes the
  processor and completes a valid rep in the detector, the scorer throws, the handler
  returns, and the counter is 0 afterwards, not 1.
\<close>

theorem scoring_error_resets_counter:
  "deliver faultyScorerStages exampleEngine (take 5 squatStream) = ascendingEngine \<and>
   state ascendingEngine = active \<and>
   consecutivePipelineErrors ascendingEngine = 0 \<and>
   stageProcess faultyScorerStages (signalProcessor ascendingEngine) (rawSample 500 2) =
     (\<lparr>lowPassFilter = \<lparr>alpha = Fin (1 / 2), previousX = Fin 0, previousY = Fin 0,
                         previousZ = Fin (29 / 16), isInitialized = True\<rparr>\<rparr>,
      Inr (zSample 500 2 (29 / 16))) \<and>
   stageDetect faultyScorerStages (detector ascendingEngine) (zSample 500 2 (29 / 16)) =
     ((SquatDetector_new DEFAULT_SQUAT_CONFIG)\<lparr>repCount := Suc 0\<rparr>,
      Inr (Some ((createDetectedRep
               (updatePeakMagnitude (Fin (29 / 16)) (ascendingExample DEFAULT_SQUAT_CONFIG))
               (Fin 500))\<lparr>isValid := True\<rparr>))) \<and>
   stageScore faultyScorerStages (scorer ascendingEngine)
     (features ((createDetectedRep
               (updatePeakMagnitude (Fin (29 / 16)) (ascendingExample DEFAULT_SQUAT_CONFIG))
               (Fin 500))\<lparr>isValid := True\<rparr>)) = Inl StageFailure \<and>
   snd (handleSensorData faultyScorerStages ascendingEngine (rawSample 500 2)) = Inr () \<and>
   consecutivePipelineErrors
     (fst (handleSensorData faultyScorerStages ascendingEngine (rawSample 500 2))) = 0"
proof -
  let ?rep = "(createDetectedRep
               (updatePeakMagnitude (Fin (29 / 16)) (ascendingExample DEFAULT_SQUAT_CONFIG))
               (Fin 500))\<lparr>isValid := True\<rparr>"
  have a: "state ascendingEngine = active" "consecutivePipelineErrors ascendingEngine = 0"
    by (simp_all add: ascendingEngine_def exampleEngine_def)
  have b: "consecutivePipelineErrors ascendingEngine < 10"
    using a(2) by simp
  have p: "stageProcess faultyScorerStages (signalProcessor ascendingEngine) (rawSample 500 2) =
     (\<lparr>lowPassFilter = \<lparr>alpha = Fin (1 / 2), previousX = Fin 0, previousY = Fin 0,
                         previousZ = Fin (29 / 16), isInitialized = True\<rparr>\<rparr>,
      Inr (zSample 500 2 (29 / 16)))"
    by (simp add: faultyScorerStages_def sourceStages_def warm_process)
  have det: "detector ascendingEngine = ascendingExample DEFAULT_SQUAT_CONFIG"
    by (simp add: ascendingEngine_def)
  have d: "stageDetect faultyScorerStages (detector ascendingEngine) (zSample 500 2 (29 / 16)) =
     ((SquatDetector_new DEFAULT_SQUAT_CONFIG)\<lparr>repCount := Suc 0\<rparr>, Inr (Some ?rep))"
    unfolding det by (simp add: faultyScorerStages_def sourceStages_def squat_accepted)
  have v: "isValid ?rep" by simp
  have sc: "stageScore faultyScorerStages (scorer ascendingEngine) (features ?rep) = Inl StageFailure"
    by (simp add: faultyScorerStages_def)
  show ?thesis
    using a p d sc scoring_error_not_counted [OF a(1) b p d v sc] ascendingEngine_reached(1)
    by simp
qed

section \<open>The circuit breaker\<close>

lemma stopped_ignores_samples: "state e \<noteq> active \<Longrightarrow> deliver st e later = e"
  by (induction later) (simp_all add: handleSensorData_def)

lemma processor_errors_add_up:
  "state e = active \<Longrightarrow> consecutivePipelineErrors e + n \<le> 10 \<Longrightarrow>
   deliver faultyProcessorStages e (replicate n rawData) =
     e\<lparr>consecutivePipelineErrors := consecutivePipelineErrors e + n\<rparr>"
proof (induction n arbitrary: e)
  case 0
  then show ?case by simp
next
  case (Suc n)
  have one: "handleSensorData faultyProcessorStages e rawData =
      (e\<lparr>signalProcessor := signalProcessor e,
         consecutivePipelineErrors := consecutivePipelineErrors e + 1\<rparr>, Inr ())"
    using Suc.prems
    by (intro processor_error_counted) (simp_all add: faultyProcessorStages_def)
  let ?e1 = "e\<lparr>consecutivePipelineErrors := consecutivePipelineErrors e + 1\<rparr>"
  have "deliver faultyProcessorStages ?e1 (replicate n rawData) =
      ?e1\<lparr>consecutivePipelineErrors := consecutivePipelineErrors ?e1 + n\<rparr>"
    using Suc.prems by (intro Suc.IH) simp_all
  then show ?case
    using one by simp
qed

text \<open>
  Claim C4, as the code has it. Let the engine be active with the error counter at 10 or
  more. On the next sample the engine stops the sensor adapter and enters the stopped
  state, whatever the callbacks do. If \<open>onStateChange\<close> returns when told of the stop, the
  engine then calls \<open>onError\<close> once, with the excessive-errors error, and calls nothing
  else; if \<open>onStateChange\<close> throws, its exception leaves the handler and \<open>onError\<close> is not
  called. Every sample delivered after that leaves the engine as it is: no callback is
  called again.
\<close>

theorem circuit_breaker_stops_once:
  assumes "state e = active" and "10 \<le> consecutivePipelineErrors e"
  shows "state (fst (handleSensorData st e rawData)) = stopped \<and>
         sensorAdapter (fst (handleSensorData st e rawData)) =
           \<lparr>subscribed = False, isActive = False\<rparr> \<and>
         (onStateChange (callbacks e) stopped = Inr () \<longrightarrow>
            fst (handleSensorData st e rawData) =
              e\<lparr>sensorAdapter := \<lparr>subscribed = False, isActive = False\<rparr>,
                state := stopped,
                calls := calls e @ [StateChangeCall stopped, ErrorCall ExcessiveErrors]\<rparr>) \<and>
         (\<forall>thrown. onStateChange (callbacks e) stopped = Inl thrown \<longrightarrow>
            handleSensorData st e rawData =
              (e\<lparr>sensorAdapter := \<lparr>subscribed = False, isActive = False\<rparr>,
                 state := stopped,
                 calls := calls e @ [StateChangeCall stopped]\<rparr>,
               Inl thrown)) \<and>
         deliver st (fst (handleSensorData st e rawData)) later =
           fst (handleSensorData st e rawData)"
proof -
  let ?h = "fst (handleSensorData st e rawData)"
  have halt: "state ?h = stopped \<and> sensorAdapter ?h = \<lparr>subscribed = False, isActive = False\<rparr>"
    using assms
    by (cases "onStateChange (callbacks e) stopped")
      (simp_all add: handleSensorData_def MAX_CONSECUTIVE_ERRORS_def stop_def setState_def
        SensorAdapter_stop_def Let_def)
  have once: "onStateChange (callbacks e) stopped = Inr () \<longrightarrow>
      ?h = e\<lparr>sensorAdapter := \<lparr>subscribed = False, isActive = False\<rparr>,
             state := stopped,
             calls := calls e @ [StateChangeCall stopped, ErrorCall ExcessiveErrors]\<rparr>"
    using assms
    by (simp add: handleSensorData_def MAX_CONSECUTIVE_ERRORS_def stop_def setState_def
        SensorAdapter_stop_def Let_def)
  have never: "\<forall>thrown. onStateChange (callbacks e) stopped = Inl thrown \<longrightarrow>
      handleSensorData st e rawData =
        (e\<lparr>sensorAdapter := \<lparr>subscribed = False, isActive = False\<rparr>,
           state := stopped,
           calls := calls e @ [StateChangeCall stopped]\<rparr>,
         Inl thrown)"
    using assms
    by (simp add: handleSensorData_def MAX_CONSECUTIVE_ERRORS_def stop_def setState_def
        SensorAdapter_stop_def Let_def)
  have "state ?h \<noteq> active"
    using halt by simp
  then have "deliver st ?h later = ?h"
    by (rule stopped_ignores_samples)
  with halt once never show ?thesis by blast
qed

theorem circuit_breaker_stops_once_witness:
  "state (deliver faultyProcessorStages exampleEngine (replicate 10 (rawSample 0 2))) = active \<and>
   consecutivePipelineErrors
     (deliver faultyProcessorStages exampleEngine (replicate 10 (rawSample 0 2))) = 10 \<and>
   onStateChange
     (callbacks (deliver faultyProcessorStages exampleEngine (replicate 10 (rawSample 0 2))))
     stopped = Inr () \<and>
   deliver faultyProcessorStages exampleEngine (replicate 11 (rawSample 0 2) @ squatStream) =
     exampleEngine
       \<lparr>sensorAdapter := \<lparr>subscribed = False, isActive = False\<rparr>,
         state := stopped,
         consecutivePipelineErrors := 10,
         calls := [StateChangeCall stopped, ErrorCall ExcessiveErrors]\<rparr> \<and>
   state (exampleEngine
     \<lparr>callbacks := quietCallbacks\<lparr>onStateChange := (\<lambda>newState. Inl TypeError)\<rparr>,
       consecutivePipelineErrors := 12\<rparr>) = active \<and>
   onStateChange (callbacks (exampleEngine
     \<lparr>callbacks := quietCallbacks\<lparr>onStateChange := (\<lambda>newState. Inl TypeError)\<rparr>,
       consecutivePipelineErrors := 12\<rparr>)) stopped = Inl TypeError \<and>
   snd (handleSensorData sourceStages
     (exampleEngine
        \<lparr>callbacks := quietCallbacks\<lparr>onStateChange := (\<lambda>newState. Inl TypeError)\<rparr>,
          consecutivePipelineErrors := 12\<rparr>) (rawSample 0 2)) = Inl TypeError \<and>
   calls (deliver sourceStages
     (fst (handleSensorData sourceStages
        (exampleEngine
           \<lparr>callbacks := quietCallbacks\<lparr>onStateChange := (\<lambda>newState. Inl TypeError)\<rparr>,
             consecutivePipelineErrors := 12\<rparr>) (rawSample 0 2))) squatStream) =
     [StateChangeCall stopped]"
proof -
  let ?e = "deliver faultyProcessorStages exampleEngine (replicate 10 (rawSample 0 2))"
  let ?h = "fst (handleSensorData faultyProcessorStages ?e (rawSample 0 2))"
  let ?t = "exampleEngine
     \<lparr>callbacks := quietCallbacks\<lparr>onStateChange := (\<lambda>newState. Inl TypeError)\<rparr>,
       consecutivePipelineErrors := 12\<rparr>"
  have e: "?e = exampleEngine\<lparr>consecutivePipelineErrors := 10\<rparr>"
    using processor_errors_add_up [of exampleEngine 10 "rawSample 0 2"]
    by (simp add: exampleEngine_def)
  have h1: "state ?e = active" and h2: "10 \<le> consecutivePipelineErrors ?e"
    and h3: "onStateChange (callbacks ?e) stopped = Inr ()"
    unfolding e by (simp_all add: exampleEngine_def quietCallbacks_def)
  have split: "replicate 11 (rawSample 0 2) @ squatStream =
      replicate 10 (rawSample 0 2) @ rawSample 0 2 # squatStream"
    by (simp add: replicate_append_same numeral_eq_Suc)
  have "deliver faultyProcessorStages exampleEngine (replicate 11 (rawSample 0 2) @ squatStream) =
      deliver faultyProcessorStages ?h squatStream"
    unfolding split deliver_append by simp
  also have "\<dots> = ?h"
    using circuit_breaker_stops_once [OF h1 h2] by blast
  also have "\<dots> = ?e\<lparr>sensorAdapter := \<lparr>subscribed = False, isActive = False\<rparr>,
             state := stopped,
             calls := calls ?e @ [StateChangeCall stopped, ErrorCall ExcessiveErrors]\<rparr>"
    using circuit_breaker_stops_once [OF h1 h2] h3 by blast
  finally have quiet: "deliver faultyProcessorStages exampleEngine
        (replicate 11 (rawSample 0 2) @ squatStream) =
      exampleEngine
        \<lparr>sensorAdapter := \<lparr>subscribed = False, isActive = False\<rparr>,
          state := stopped,
          consecutivePipelineErrors := 10,
          calls := [StateChangeCall stopped, ErrorCall ExcessiveErrors]\<rparr>"
    unfolding e by (simp add: exampleEngine_def)
  have t1: "state ?t = active" and t2: "10 \<le> consecutivePipelineErrors ?t"
    and t3: "onStateChange (callbacks ?t) stopped = Inl TypeError"
    and t4: "calls ?t = []"
    by (simp_all add: exampleEngine_def)
  have thrown: "handleSensorData sourceStages ?t (rawSample 0 2) =
      (?t\<lparr>sensorAdapter := \<lparr>subscribed = False, isActive = False\<rparr>,
          state := stopped,
          calls := calls ?t @ [StateChangeCall stopped]\<rparr>,
       Inl TypeError)"
    using circuit_breaker_stops_once [OF t1 t2, of sourceStages "rawSample 0 2"] t3 by blast
  have after: "deliver sourceStages (fst (handleSensorData sourceStages ?t (rawSample 0 2)))
        squatStream =
      fst (handleSensorData sourceStages ?t (rawSample 0 2))"
    using circuit_breaker_stops_once [OF t1 t2] by blast
  have "snd (handleSensorData sourceStages ?t (rawSample 0 2)) = Inl TypeError"
    unfolding thrown by simp
  moreover have "calls (deliver sourceStages
        (fst (handleSensorData sourceStages ?t (rawSample 0 2))) squatStream) =
      [StateChangeCall stopped]"
    unfolding after unfolding thrown using t4 by simp
  ultimately show ?thesis
    using h1 h2 h3 quiet t1 t3 unfolding e by simp
qed

text \<open>
  The claim as the specification words it asks for exactly one call of \<open>onError\<close>. A
  caller whose \<open>onStateChange\<close> throws gets none: \<open>setState\<close> calls \<open>onStateChange\<close>
  with no handler around it, and \<open>stop\<close> is called before \<open>onError\<close>. With ten errors
  counted, the next sample stops the sensor adapter and sets the state to stopped, the
  exception of the callback leaves \<open>handleSensorData\<close>, and the trace of callback calls
  holds the state change alone.
\<close>

theorem circuit_breaker_silent_when_state_callback_throws:
  "deliver faultyProcessorStages throwingCallbackEngine (replicate 10 (rawSample 0 2)) =
     throwingCallbackEngine\<lparr>consecutivePipelineErrors := 10\<rparr> \<and>
   state (throwingCallbackEngine\<lparr>consecutivePipelineErrors := 10\<rparr>) = active \<and>
   handleSensorData faultyProcessorStages
       (throwingCallbackEngine\<lparr>consecutivePipelineErrors := 10\<rparr>) (rawSample 0 2) =
     (throwingCallbackEngine
        \<lparr>sensorAdapter := \<lparr>subscribed = False, isActive = False\<rparr>,
          state := stopped,
          consecutivePipelineErrors := 10,
          calls := [StateChangeCall stopped]\<rparr>,
      Inl CallbackFailure) \<and>
   count_list
     (calls (fst (handleSensorData faultyProcessorStages
                    (throwingCallbackEngine\<lparr>consecutivePipelineErrors := 10\<rparr>)
                    (rawSample 0 2))))
     (ErrorCall ExcessiveErrors) = 0"
proof -
  have ten: "deliver faultyProcessorStages throwingCallbackEngine (replicate 10 (rawSample 0 2)) =
     throwingCallbackEngine\<lparr>consecutivePipelineErrors := 10\<rparr>"
    using processor_errors_add_up [of throwingCallbackEngine 10 "rawSample 0 2"]
    by (simp add: throwingCallbackEngine_def exampleEngine_def)
  have trip: "handleSensorData faultyProcessorStages
       (throwingCallbackEngine\<lparr>consecutivePipelineErrors := 10\<rparr>) (rawSample 0 2) =
     (throwingCallbackEngine
        \<lparr>sensorAdapter := \<lparr>subscribed = False, isActive = False\<rparr>,
          state := stopped,
          consecutivePipelineErrors := 10,
          calls := [StateChangeCall stopped]\<rparr>,
      Inl CallbackFailure)"
    by (simp add: handleSensorData_def MAX_CONSECUTIVE_ERRORS_def stop_def setState_def
        SensorAdapter_stop_def Let_def throwingCallbackEngine_def exampleEngine_def
        quietCallbacks_def)
  show ?thesis
    unfolding trip using ten
    by (simp add: throwingCallbackEngine_def exampleEngine_def)
qed

end
